theory Spec2Isabelle
  imports Main "HOL-Library.Word"
begin

unbundle bit_operations_syntax

section \<open>Arducam 64MP sensor driver: data model\<close>

text \<open>
  A shallow embedding of \<^verbatim>\<open>drivers/media/i2c/arducam_64mp.c\<close>. The driver's C
  functions return \<^verbatim>\<open>int\<close> status codes (0, or a negated errno); the model returns
  the same integer together with the updated driver state. Unsigned C integers are words
  of their width, so that \<open>+\<close> wraps as it does in C.
\<close>

type_synonym u8 = "8 word"
type_synonym u16 = "16 word"
type_synonym u32 = "32 word"
type_synonym u64 = "64 word"

text \<open>The two errno values the driver itself produces (Linux \<^verbatim>\<open>errno-base.h\<close>).\<close>

definition EIO :: int where "EIO = 5"
definition EINVAL :: int where "EINVAL = 22"

subsection \<open>Register constants\<close>

definition ARDUCAM_64MP_REG_VALUE_08BIT :: u32 where "ARDUCAM_64MP_REG_VALUE_08BIT = 1"
definition ARDUCAM_64MP_REG_VALUE_16BIT :: u32 where "ARDUCAM_64MP_REG_VALUE_16BIT = 2"

definition ARDUCAM_64MP_REG_MODE_SELECT :: u16 where "ARDUCAM_64MP_REG_MODE_SELECT = 0x0100"
definition ARDUCAM_64MP_MODE_STANDBY :: u32 where "ARDUCAM_64MP_MODE_STANDBY = 0x00"
definition ARDUCAM_64MP_MODE_STREAMING :: u32 where "ARDUCAM_64MP_MODE_STREAMING = 0x01"
definition ARDUCAM_64MP_REG_ORIENTATION :: u16 where "ARDUCAM_64MP_REG_ORIENTATION = 0x101"

definition ARDUCAM_64MP_PIXEL_RATE :: u64 where "ARDUCAM_64MP_PIXEL_RATE = 900000000"

definition ARDUCAM_64MP_REG_FRAME_LENGTH :: u16 where "ARDUCAM_64MP_REG_FRAME_LENGTH = 0x0340"
definition ARDUCAM_64MP_FRAME_LENGTH_MAX :: u32 where "ARDUCAM_64MP_FRAME_LENGTH_MAX = 0xffff"

definition ARDUCAM_64MP_LONG_EXP_SHIFT_MAX :: nat where "ARDUCAM_64MP_LONG_EXP_SHIFT_MAX = 7"
definition ARDUCAM_64MP_LONG_EXP_SHIFT_REG :: u16 where "ARDUCAM_64MP_LONG_EXP_SHIFT_REG = 0x3100"

definition ARDUCAM_64MP_REG_EXPOSURE :: u16 where "ARDUCAM_64MP_REG_EXPOSURE = 0x0202"
definition ARDUCAM_64MP_EXPOSURE_OFFSET :: u32 where "ARDUCAM_64MP_EXPOSURE_OFFSET = 48"

definition ARDUCAM_64MP_REG_ANALOG_GAIN :: u16 where "ARDUCAM_64MP_REG_ANALOG_GAIN = 0x0204"
definition ARDUCAM_64MP_REG_DIGITAL_GAIN :: u16 where "ARDUCAM_64MP_REG_DIGITAL_GAIN = 0x020e"

definition ARDUCAM_64MP_REG_TEST_PATTERN :: u16 where "ARDUCAM_64MP_REG_TEST_PATTERN = 0x0600"
definition ARDUCAM_64MP_REG_TEST_PATTERN_R :: u16 where "ARDUCAM_64MP_REG_TEST_PATTERN_R = 0x0602"
definition ARDUCAM_64MP_REG_TEST_PATTERN_GR :: u16 where "ARDUCAM_64MP_REG_TEST_PATTERN_GR = 0x0604"
definition ARDUCAM_64MP_REG_TEST_PATTERN_B :: u16 where "ARDUCAM_64MP_REG_TEST_PATTERN_B = 0x0606"
definition ARDUCAM_64MP_REG_TEST_PATTERN_GB :: u16 where "ARDUCAM_64MP_REG_TEST_PATTERN_GB = 0x0608"

definition ARDUCAM_64MP_EMBEDDED_LINE_WIDTH :: u32 where
  "ARDUCAM_64MP_EMBEDDED_LINE_WIDTH = 11560 * 3"
definition ARDUCAM_64MP_NUM_EMBEDDED_LINES :: u32 where
  "ARDUCAM_64MP_NUM_EMBEDDED_LINES = 1"

definition ARDUCAM_64MP_PIXEL_ARRAY_LEFT :: u32 where "ARDUCAM_64MP_PIXEL_ARRAY_LEFT = 48"
definition ARDUCAM_64MP_PIXEL_ARRAY_TOP :: u32 where "ARDUCAM_64MP_PIXEL_ARRAY_TOP = 40"

text \<open>\<^verbatim>\<open>enum pad_types\<close>; \<^verbatim>\<open>NUM_PADS\<close> is the count of the two real pads.\<close>

definition IMAGE_PAD :: u32 where "IMAGE_PAD = 0"
definition METADATA_PAD :: u32 where "METADATA_PAD = 1"
definition NUM_PADS :: u32 where "NUM_PADS = 2"

subsection \<open>Register tables\<close>

text \<open>\<^verbatim>\<open>struct arducam_64mp_reg\<close>: a 16-bit address and the byte to store there.\<close>

datatype arducam_64mp_reg = Reg (address: u16) (val: u8)

definition mode_common_regs :: "arducam_64mp_reg list" where
  "mode_common_regs = [
    Reg 0x0100 0x00, Reg 0x0136 0x18, Reg 0x0137 0x00, Reg 0x33F0 0x01,
    Reg 0x33F1 0x03, Reg 0x0111 0x02, Reg 0x3062 0x00, Reg 0x3063 0x30,
    Reg 0x3076 0x00, Reg 0x3077 0x30, Reg 0x1F06 0x06, Reg 0x1F07 0x82,
    Reg 0x1F04 0x71, Reg 0x1F05 0x01, Reg 0x1F08 0x01, Reg 0x5BFE 0x14,
    Reg 0x5C0D 0x2D, Reg 0x5C1C 0x30, Reg 0x5C2B 0x32, Reg 0x5C37 0x2E,
    Reg 0x5C40 0x30, Reg 0x5C50 0x14, Reg 0x5C5F 0x28, Reg 0x5C6E 0x28,
    Reg 0x5C7D 0x32, Reg 0x5C89 0x37, Reg 0x5C92 0x56, Reg 0x5BFC 0x12,
    Reg 0x5C0B 0x2A, Reg 0x5C1A 0x2C, Reg 0x5C29 0x2F, Reg 0x5C36 0x2E,
    Reg 0x5C3F 0x2E, Reg 0x5C4E 0x06, Reg 0x5C5D 0x1E, Reg 0x5C6C 0x20,
    Reg 0x5C7B 0x1E, Reg 0x5C88 0x32, Reg 0x5C91 0x32, Reg 0x5C02 0x14,
    Reg 0x5C11 0x2F, Reg 0x5C20 0x32, Reg 0x5C2F 0x34, Reg 0x5C39 0x31,
    Reg 0x5C42 0x31, Reg 0x5C8B 0x28, Reg 0x5C94 0x28, Reg 0x5C00 0x10,
    Reg 0x5C0F 0x2C, Reg 0x5C1E 0x2E, Reg 0x5C2D 0x32, Reg 0x5C38 0x2E,
    Reg 0x5C41 0x2B, Reg 0x5C61 0x0A, Reg 0x5C70 0x0A, Reg 0x5C7F 0x0A,
    Reg 0x5C8A 0x1E, Reg 0x5C93 0x2A, Reg 0x5BFA 0x2B, Reg 0x5C09 0x2D,
    Reg 0x5C18 0x2E, Reg 0x5C27 0x30, Reg 0x5C5B 0x28, Reg 0x5C6A 0x22,
    Reg 0x5C79 0x42, Reg 0x5BFB 0x2C, Reg 0x5C0A 0x2F, Reg 0x5C19 0x2E,
    Reg 0x5C28 0x2E, Reg 0x5C4D 0x20, Reg 0x5C5C 0x1E, Reg 0x5C6B 0x32,
    Reg 0x5C7A 0x32, Reg 0x5BFD 0x30, Reg 0x5C0C 0x32, Reg 0x5C1B 0x2E,
    Reg 0x5C2A 0x30, Reg 0x5C4F 0x28, Reg 0x5C5E 0x32, Reg 0x5C6D 0x37,
    Reg 0x5C7C 0x56, Reg 0x5BFF 0x2E, Reg 0x5C0E 0x32, Reg 0x5C1D 0x2E,
    Reg 0x5C2C 0x2B, Reg 0x5C51 0x0A, Reg 0x5C60 0x0A, Reg 0x5C6F 0x1E,
    Reg 0x5C7E 0x2A, Reg 0x5C01 0x32, Reg 0x5C10 0x34, Reg 0x5C1F 0x31,
    Reg 0x5C2E 0x31, Reg 0x5C71 0x28, Reg 0x5C80 0x28, Reg 0x5C4C 0x2A,
    Reg 0x33F2 0x01, Reg 0x1F04 0x73, Reg 0x1F05 0x01, Reg 0x5BFA 0x35,
    Reg 0x5C09 0x38, Reg 0x5C18 0x3A, Reg 0x5C27 0x38, Reg 0x5C5B 0x25,
    Reg 0x5C6A 0x24, Reg 0x5C79 0x47, Reg 0x5BFC 0x15, Reg 0x5C0B 0x2E,
    Reg 0x5C1A 0x36, Reg 0x5C29 0x38, Reg 0x5C36 0x36, Reg 0x5C3F 0x36,
    Reg 0x5C4E 0x0B, Reg 0x5C5D 0x20, Reg 0x5C6C 0x2A, Reg 0x5C7B 0x25,
    Reg 0x5C88 0x25, Reg 0x5C91 0x22, Reg 0x5BFE 0x15, Reg 0x5C0D 0x32,
    Reg 0x5C1C 0x36, Reg 0x5C2B 0x36, Reg 0x5C37 0x3A, Reg 0x5C40 0x39,
    Reg 0x5C50 0x06, Reg 0x5C5F 0x22, Reg 0x5C6E 0x23, Reg 0x5C7D 0x2E,
    Reg 0x5C89 0x44, Reg 0x5C92 0x51, Reg 0x5D7F 0x0A, Reg 0x5C00 0x17,
    Reg 0x5C0F 0x36, Reg 0x5C1E 0x38, Reg 0x5C2D 0x3C, Reg 0x5C38 0x38,
    Reg 0x5C41 0x36, Reg 0x5C52 0x0A, Reg 0x5C61 0x21, Reg 0x5C70 0x23,
    Reg 0x5C7F 0x1B, Reg 0x5C8A 0x22, Reg 0x5C93 0x20, Reg 0x5C02 0x1A,
    Reg 0x5C11 0x3E, Reg 0x5C20 0x3F, Reg 0x5C2F 0x3D, Reg 0x5C39 0x3E,
    Reg 0x5C42 0x3C, Reg 0x5C54 0x02, Reg 0x5C63 0x12, Reg 0x5C72 0x14,
    Reg 0x5C81 0x24, Reg 0x5C8B 0x1C, Reg 0x5C94 0x4E, Reg 0x5D8A 0x09,
    Reg 0x5BFB 0x36, Reg 0x5C0A 0x38, Reg 0x5C19 0x36, Reg 0x5C28 0x36,
    Reg 0x5C4D 0x2A, Reg 0x5C5C 0x25, Reg 0x5C6B 0x25, Reg 0x5C7A 0x22,
    Reg 0x5BFD 0x36, Reg 0x5C0C 0x36, Reg 0x5C1B 0x3A, Reg 0x5C2A 0x39,
    Reg 0x5C4F 0x23, Reg 0x5C5E 0x2E, Reg 0x5C6D 0x44, Reg 0x5C7C 0x51,
    Reg 0x5D63 0x0A, Reg 0x5BFF 0x38, Reg 0x5C0E 0x3C, Reg 0x5C1D 0x38,
    Reg 0x5C2C 0x36, Reg 0x5C51 0x23, Reg 0x5C60 0x1B, Reg 0x5C6F 0x22,
    Reg 0x5C7E 0x20, Reg 0x5C01 0x3F, Reg 0x5C10 0x3D, Reg 0x5C1F 0x3E,
    Reg 0x5C2E 0x3C, Reg 0x5C53 0x14, Reg 0x5C62 0x24, Reg 0x5C71 0x1C,
    Reg 0x5C80 0x4E, Reg 0x5D76 0x09, Reg 0x5C4C 0x2A, Reg 0x33F2 0x02,
    Reg 0x1F04 0x78, Reg 0x1F05 0x01, Reg 0x5BFA 0x37, Reg 0x5C09 0x36,
    Reg 0x5C18 0x39, Reg 0x5C27 0x38, Reg 0x5C5B 0x27, Reg 0x5C6A 0x2B,
    Reg 0x5C79 0x48, Reg 0x5BFC 0x16, Reg 0x5C0B 0x32, Reg 0x5C1A 0x33,
    Reg 0x5C29 0x37, Reg 0x5C36 0x36, Reg 0x5C3F 0x35, Reg 0x5C4E 0x0D,
    Reg 0x5C5D 0x2D, Reg 0x5C6C 0x23, Reg 0x5C7B 0x25, Reg 0x5C88 0x31,
    Reg 0x5C91 0x2E, Reg 0x5BFE 0x15, Reg 0x5C0D 0x31, Reg 0x5C1C 0x35,
    Reg 0x5C2B 0x36, Reg 0x5C37 0x35, Reg 0x5C40 0x37, Reg 0x5C50 0x0F,
    Reg 0x5C5F 0x31, Reg 0x5C6E 0x30, Reg 0x5C7D 0x33, Reg 0x5C89 0x36,
    Reg 0x5C92 0x5B, Reg 0x5C00 0x13, Reg 0x5C0F 0x2F, Reg 0x5C1E 0x2E,
    Reg 0x5C2D 0x34, Reg 0x5C38 0x33, Reg 0x5C41 0x32, Reg 0x5C52 0x0D,
    Reg 0x5C61 0x27, Reg 0x5C70 0x28, Reg 0x5C7F 0x1F, Reg 0x5C8A 0x25,
    Reg 0x5C93 0x2C, Reg 0x5C02 0x15, Reg 0x5C11 0x36, Reg 0x5C20 0x39,
    Reg 0x5C2F 0x3A, Reg 0x5C39 0x37, Reg 0x5C42 0x37, Reg 0x5C54 0x04,
    Reg 0x5C63 0x1C, Reg 0x5C72 0x1C, Reg 0x5C81 0x1C, Reg 0x5C8B 0x28,
    Reg 0x5C94 0x24, Reg 0x5BFB 0x33, Reg 0x5C0A 0x37, Reg 0x5C19 0x36,
    Reg 0x5C28 0x35, Reg 0x5C4D 0x23, Reg 0x5C5C 0x25, Reg 0x5C6B 0x31,
    Reg 0x5C7A 0x2E, Reg 0x5BFD 0x35, Reg 0x5C0C 0x36, Reg 0x5C1B 0x35,
    Reg 0x5C2A 0x37, Reg 0x5C4F 0x30, Reg 0x5C5E 0x33, Reg 0x5C6D 0x36,
    Reg 0x5C7C 0x5B, Reg 0x5BFF 0x2E, Reg 0x5C0E 0x34, Reg 0x5C1D 0x33,
    Reg 0x5C2C 0x32, Reg 0x5C51 0x28, Reg 0x5C60 0x1F, Reg 0x5C6F 0x25,
    Reg 0x5C7E 0x2C, Reg 0x5C01 0x39, Reg 0x5C10 0x3A, Reg 0x5C1F 0x37,
    Reg 0x5C2E 0x37, Reg 0x5C53 0x1C, Reg 0x5C62 0x1C, Reg 0x5C71 0x28,
    Reg 0x5C80 0x24, Reg 0x5C4C 0x2C, Reg 0x33F2 0x03, Reg 0x1F08 0x00,
    Reg 0x32C8 0x00, Reg 0x4017 0x40, Reg 0x40A2 0x01, Reg 0x40AC 0x01,
    Reg 0x4328 0x00, Reg 0x4329 0xB3, Reg 0x4E15 0x10, Reg 0x4E19 0x2F,
    Reg 0x4E21 0x0F, Reg 0x4E2F 0x10, Reg 0x4E3D 0x10, Reg 0x4E41 0x2F,
    Reg 0x4E57 0x29, Reg 0x4FFB 0x2F, Reg 0x5011 0x24, Reg 0x501D 0x03,
    Reg 0x505F 0x41, Reg 0x5060 0xDF, Reg 0x5065 0xDF, Reg 0x5066 0x37,
    Reg 0x506E 0x57, Reg 0x5070 0xC5, Reg 0x5072 0x57, Reg 0x5075 0x53,
    Reg 0x5076 0x55, Reg 0x5077 0xC1, Reg 0x5078 0xC3, Reg 0x5079 0x53,
    Reg 0x507A 0x55, Reg 0x507D 0x57, Reg 0x507E 0xDF, Reg 0x507F 0xC5,
    Reg 0x5081 0x57, Reg 0x53C8 0x01, Reg 0x53C9 0xE2, Reg 0x53CA 0x03,
    Reg 0x5422 0x7A, Reg 0x548E 0x40, Reg 0x5497 0x5E, Reg 0x54A1 0x40,
    Reg 0x54A9 0x40, Reg 0x54B2 0x5E, Reg 0x54BC 0x40, Reg 0x57C6 0x00,
    Reg 0x583D 0x0E, Reg 0x583E 0x0E, Reg 0x583F 0x0E, Reg 0x5840 0x0E,
    Reg 0x5841 0x0E, Reg 0x5842 0x0E, Reg 0x5900 0x12, Reg 0x5901 0x12,
    Reg 0x5902 0x14, Reg 0x5903 0x12, Reg 0x5904 0x14, Reg 0x5905 0x12,
    Reg 0x5906 0x14, Reg 0x5907 0x12, Reg 0x590F 0x12, Reg 0x5911 0x12,
    Reg 0x5913 0x12, Reg 0x591C 0x12, Reg 0x591E 0x12, Reg 0x5920 0x12,
    Reg 0x5948 0x08, Reg 0x5949 0x08, Reg 0x594A 0x08, Reg 0x594B 0x08,
    Reg 0x594C 0x08, Reg 0x594D 0x08, Reg 0x594E 0x08, Reg 0x594F 0x08,
    Reg 0x595C 0x08, Reg 0x595E 0x08, Reg 0x5960 0x08, Reg 0x596E 0x08,
    Reg 0x5970 0x08, Reg 0x5972 0x08, Reg 0x597E 0x0F, Reg 0x597F 0x0F,
    Reg 0x599A 0x0F, Reg 0x59DE 0x08, Reg 0x59DF 0x08, Reg 0x59FA 0x08,
    Reg 0x5A59 0x22, Reg 0x5A5B 0x22, Reg 0x5A5D 0x1A, Reg 0x5A5F 0x22,
    Reg 0x5A61 0x1A, Reg 0x5A63 0x22, Reg 0x5A65 0x1A, Reg 0x5A67 0x22,
    Reg 0x5A77 0x22, Reg 0x5A7B 0x22, Reg 0x5A7F 0x22, Reg 0x5A91 0x22,
    Reg 0x5A95 0x22, Reg 0x5A99 0x22, Reg 0x5AE9 0x66, Reg 0x5AEB 0x66,
    Reg 0x5AED 0x5E, Reg 0x5AEF 0x66, Reg 0x5AF1 0x5E, Reg 0x5AF3 0x66,
    Reg 0x5AF5 0x5E, Reg 0x5AF7 0x66, Reg 0x5B07 0x66, Reg 0x5B0B 0x66,
    Reg 0x5B0F 0x66, Reg 0x5B21 0x66, Reg 0x5B25 0x66, Reg 0x5B29 0x66,
    Reg 0x5B79 0x46, Reg 0x5B7B 0x3E, Reg 0x5B7D 0x3E, Reg 0x5B89 0x46,
    Reg 0x5B8B 0x46, Reg 0x5B97 0x46, Reg 0x5B99 0x46, Reg 0x5C9E 0x0A,
    Reg 0x5C9F 0x08, Reg 0x5CA0 0x0A, Reg 0x5CA1 0x0A, Reg 0x5CA2 0x0B,
    Reg 0x5CA3 0x06, Reg 0x5CA4 0x04, Reg 0x5CA5 0x06, Reg 0x5CA6 0x04,
    Reg 0x5CAD 0x0B, Reg 0x5CAE 0x0A, Reg 0x5CAF 0x0C, Reg 0x5CB0 0x0A,
    Reg 0x5CB1 0x0B, Reg 0x5CB2 0x08, Reg 0x5CB3 0x06, Reg 0x5CB4 0x08,
    Reg 0x5CB5 0x04, Reg 0x5CBC 0x0B, Reg 0x5CBD 0x09, Reg 0x5CBE 0x08,
    Reg 0x5CBF 0x09, Reg 0x5CC0 0x0A, Reg 0x5CC1 0x08, Reg 0x5CC2 0x06,
    Reg 0x5CC3 0x08, Reg 0x5CC4 0x06, Reg 0x5CCB 0x0A, Reg 0x5CCC 0x09,
    Reg 0x5CCD 0x0A, Reg 0x5CCE 0x08, Reg 0x5CCF 0x0A, Reg 0x5CD0 0x08,
    Reg 0x5CD1 0x08, Reg 0x5CD2 0x08, Reg 0x5CD3 0x08, Reg 0x5CDA 0x09,
    Reg 0x5CDB 0x09, Reg 0x5CDC 0x08, Reg 0x5CDD 0x08, Reg 0x5CE3 0x09,
    Reg 0x5CE4 0x08, Reg 0x5CE5 0x08, Reg 0x5CE6 0x08, Reg 0x5CF4 0x04,
    Reg 0x5D04 0x04, Reg 0x5D13 0x06, Reg 0x5D22 0x06, Reg 0x5D23 0x04,
    Reg 0x5D2E 0x06, Reg 0x5D37 0x06, Reg 0x5D6F 0x09, Reg 0x5D72 0x0F,
    Reg 0x5D88 0x0F, Reg 0x5DE6 0x01, Reg 0x5DE7 0x01, Reg 0x5DE8 0x01,
    Reg 0x5DE9 0x01, Reg 0x5DEA 0x01, Reg 0x5DEB 0x01, Reg 0x5DEC 0x01,
    Reg 0x5DF2 0x01, Reg 0x5DF3 0x01, Reg 0x5DF4 0x01, Reg 0x5DF5 0x01,
    Reg 0x5DF6 0x01, Reg 0x5DF7 0x01, Reg 0x5DF8 0x01, Reg 0x5DFE 0x01,
    Reg 0x5DFF 0x01, Reg 0x5E00 0x01, Reg 0x5E01 0x01, Reg 0x5E02 0x01,
    Reg 0x5E03 0x01, Reg 0x5E04 0x01, Reg 0x5E0A 0x01, Reg 0x5E0B 0x01,
    Reg 0x5E0C 0x01, Reg 0x5E0D 0x01, Reg 0x5E0E 0x01, Reg 0x5E0F 0x01,
    Reg 0x5E10 0x01, Reg 0x5E16 0x01, Reg 0x5E17 0x01, Reg 0x5E18 0x01,
    Reg 0x5E1E 0x01, Reg 0x5E1F 0x01, Reg 0x5E20 0x01, Reg 0x5E6E 0x5A,
    Reg 0x5E6F 0x46, Reg 0x5E70 0x46, Reg 0x5E71 0x3C, Reg 0x5E72 0x3C,
    Reg 0x5E73 0x28, Reg 0x5E74 0x28, Reg 0x5E75 0x6E, Reg 0x5E76 0x6E,
    Reg 0x5E81 0x46, Reg 0x5E83 0x3C, Reg 0x5E85 0x28, Reg 0x5E87 0x6E,
    Reg 0x5E92 0x46, Reg 0x5E94 0x3C, Reg 0x5E96 0x28, Reg 0x5E98 0x6E,
    Reg 0x5ECB 0x26, Reg 0x5ECC 0x26, Reg 0x5ECD 0x26, Reg 0x5ECE 0x26,
    Reg 0x5ED2 0x26, Reg 0x5ED3 0x26, Reg 0x5ED4 0x26, Reg 0x5ED5 0x26,
    Reg 0x5ED9 0x26, Reg 0x5EDA 0x26, Reg 0x5EE5 0x08, Reg 0x5EE6 0x08,
    Reg 0x5EE7 0x08, Reg 0x6006 0x14, Reg 0x6007 0x14, Reg 0x6008 0x14,
    Reg 0x6009 0x14, Reg 0x600A 0x14, Reg 0x600B 0x14, Reg 0x600C 0x14,
    Reg 0x600D 0x22, Reg 0x600E 0x22, Reg 0x600F 0x14, Reg 0x601A 0x14,
    Reg 0x601B 0x14, Reg 0x601C 0x14, Reg 0x601D 0x14, Reg 0x601E 0x14,
    Reg 0x601F 0x14, Reg 0x6020 0x14, Reg 0x6021 0x22, Reg 0x6022 0x22,
    Reg 0x6023 0x14, Reg 0x602E 0x14, Reg 0x602F 0x14, Reg 0x6030 0x14,
    Reg 0x6031 0x22, Reg 0x6039 0x14, Reg 0x603A 0x14, Reg 0x603B 0x14,
    Reg 0x603C 0x22, Reg 0x6132 0x0F, Reg 0x6133 0x0F, Reg 0x6134 0x0F,
    Reg 0x6135 0x0F, Reg 0x6136 0x0F, Reg 0x6137 0x0F, Reg 0x6138 0x0F,
    Reg 0x613E 0x0F, Reg 0x613F 0x0F, Reg 0x6140 0x0F, Reg 0x6141 0x0F,
    Reg 0x6142 0x0F, Reg 0x6143 0x0F, Reg 0x6144 0x0F, Reg 0x614A 0x0F,
    Reg 0x614B 0x0F, Reg 0x614C 0x0F, Reg 0x614D 0x0F, Reg 0x614E 0x0F,
    Reg 0x614F 0x0F, Reg 0x6150 0x0F, Reg 0x6156 0x0F, Reg 0x6157 0x0F,
    Reg 0x6158 0x0F, Reg 0x6159 0x0F, Reg 0x615A 0x0F, Reg 0x615B 0x0F,
    Reg 0x615C 0x0F, Reg 0x6162 0x0F, Reg 0x6163 0x0F, Reg 0x6164 0x0F,
    Reg 0x616A 0x0F, Reg 0x616B 0x0F, Reg 0x616C 0x0F, Reg 0x6226 0x00,
    Reg 0x84F8 0x01, Reg 0x8501 0x00, Reg 0x8502 0x01, Reg 0x8505 0x00,
    Reg 0x8744 0x00, Reg 0x883C 0x01, Reg 0x8845 0x00, Reg 0x8846 0x01,
    Reg 0x8849 0x00, Reg 0x9004 0x1F, Reg 0x9064 0x4D, Reg 0x9065 0x3D,
    Reg 0x922E 0x91, Reg 0x922F 0x2A, Reg 0x9230 0xE2, Reg 0x9231 0xC0,
    Reg 0x9232 0xE2, Reg 0x9233 0xC1, Reg 0x9234 0xE2, Reg 0x9235 0xC2,
    Reg 0x9236 0xE2, Reg 0x9237 0xC3, Reg 0x9238 0xE2, Reg 0x9239 0xD4,
    Reg 0x923A 0xE2, Reg 0x923B 0xD5, Reg 0x923C 0x90, Reg 0x923D 0x64,
    Reg 0xB0B9 0x10, Reg 0xBC76 0x00, Reg 0xBC77 0x00, Reg 0xBC78 0x00,
    Reg 0xBC79 0x00, Reg 0xBC7B 0x28, Reg 0xBC7C 0x00, Reg 0xBC7D 0x00,
    Reg 0xBC7F 0xC0, Reg 0xC6B9 0x01, Reg 0xECB5 0x04, Reg 0xECBF 0x04,
    Reg 0x0112 0x0A, Reg 0x0113 0x0A, Reg 0x0114 0x01, Reg 0x0301 0x08,
    Reg 0x0303 0x02, Reg 0x0305 0x04, Reg 0x0306 0x01, Reg 0x0307 0x2C,
    Reg 0x030B 0x02, Reg 0x030D 0x04, Reg 0x030E 0x01, Reg 0x030F 0x30,
    Reg 0x0310 0x01, Reg 0x4018 0x00, Reg 0x4019 0x00, Reg 0x401A 0x00,
    Reg 0x401B 0x00, Reg 0x3400 0x01, Reg 0x3092 0x01, Reg 0x3093 0x00,
    Reg 0x0350 0x00, Reg 0x3419 0x00]"

definition mode_9152x6944_regs :: "arducam_64mp_reg list" where
  "mode_9152x6944_regs = [
    Reg 0x0342 0xB6, Reg 0x0343 0xB2, Reg 0x0340 0x1B, Reg 0x0341 0x76,
    Reg 0x0344 0x00, Reg 0x0345 0x00, Reg 0x0346 0x00, Reg 0x0347 0x00,
    Reg 0x0348 0x24, Reg 0x0349 0x1F, Reg 0x034A 0x1B, Reg 0x034B 0x1F,
    Reg 0x0900 0x00, Reg 0x0901 0x11, Reg 0x0902 0x0A, Reg 0x30D8 0x00,
    Reg 0x3200 0x01, Reg 0x3201 0x01, Reg 0x0408 0x00, Reg 0x0409 0x00,
    Reg 0x040A 0x00, Reg 0x040B 0x00, Reg 0x040C 0x23, Reg 0x040D 0xC0,
    Reg 0x040E 0x1B, Reg 0x040F 0x20, Reg 0x034C 0x23, Reg 0x034D 0xC0,
    Reg 0x034E 0x1B, Reg 0x034F 0x20, Reg 0x30D9 0x01, Reg 0x32D5 0x01,
    Reg 0x32D6 0x00, Reg 0x401E 0x00, Reg 0x40B8 0x04, Reg 0x40B9 0x20,
    Reg 0x40BC 0x02, Reg 0x40BD 0x58, Reg 0x40BE 0x02, Reg 0x40BF 0x58,
    Reg 0x41A4 0x00, Reg 0x5A09 0x01, Reg 0x5A17 0x01, Reg 0x5A25 0x01,
    Reg 0x5A33 0x01, Reg 0x98D7 0x14, Reg 0x98D8 0x14, Reg 0x98D9 0x00,
    Reg 0x99C4 0x00, Reg 0x0202 0x03, Reg 0x0203 0xE8, Reg 0x0204 0x00,
    Reg 0x0205 0x00, Reg 0x020E 0x01, Reg 0x020F 0x00, Reg 0x341A 0x00,
    Reg 0x341B 0x00, Reg 0x341C 0x00, Reg 0x341D 0x00, Reg 0x341E 0x02,
    Reg 0x341F 0x3C, Reg 0x3420 0x02, Reg 0x3421 0x42]"

definition mode_8000x6000_regs :: "arducam_64mp_reg list" where
  "mode_8000x6000_regs = [
    Reg 0x0342 0xB6, Reg 0x0343 0xB2, Reg 0x0340 0x19, Reg 0x0341 0x0E,
    Reg 0x0344 0x02, Reg 0x0345 0x70, Reg 0x0346 0x01, Reg 0x0347 0xD8,
    Reg 0x0348 0x21, Reg 0x0349 0xAF, Reg 0x034A 0x19, Reg 0x034B 0x47,
    Reg 0x0900 0x00, Reg 0x0901 0x11, Reg 0x0902 0x0A, Reg 0x30D8 0x00,
    Reg 0x3200 0x01, Reg 0x3201 0x01, Reg 0x0408 0x00, Reg 0x0409 0x00,
    Reg 0x040A 0x00, Reg 0x040B 0x00, Reg 0x040C 0x1F, Reg 0x040D 0x40,
    Reg 0x040E 0x17, Reg 0x040F 0x70, Reg 0x034C 0x1F, Reg 0x034D 0x40,
    Reg 0x034E 0x17, Reg 0x034F 0x70, Reg 0x30D9 0x01, Reg 0x32D5 0x01,
    Reg 0x32D6 0x00, Reg 0x401E 0x00, Reg 0x40B8 0x04, Reg 0x40B9 0x20,
    Reg 0x40BC 0x02, Reg 0x40BD 0x58, Reg 0x40BE 0x02, Reg 0x40BF 0x58,
    Reg 0x41A4 0x00, Reg 0x5A09 0x01, Reg 0x5A17 0x01, Reg 0x5A25 0x01,
    Reg 0x5A33 0x01, Reg 0x98D7 0x14, Reg 0x98D8 0x14, Reg 0x98D9 0x00,
    Reg 0x99C4 0x00, Reg 0x0202 0x03, Reg 0x0203 0xE8, Reg 0x0204 0x00,
    Reg 0x0205 0x00, Reg 0x020E 0x01, Reg 0x020F 0x00, Reg 0x341A 0x00,
    Reg 0x341B 0x00, Reg 0x341C 0x00, Reg 0x341D 0x00, Reg 0x341E 0x01,
    Reg 0x341F 0xF4, Reg 0x3420 0x01, Reg 0x3421 0xF4]"

definition mode_4624x3472_regs :: "arducam_64mp_reg list" where
  "mode_4624x3472_regs = [
    Reg 0x0342 0x63, Reg 0x0343 0x97, Reg 0x0340 0x0D, Reg 0x0341 0xCA,
    Reg 0x0344 0x00, Reg 0x0345 0x00, Reg 0x0346 0x00, Reg 0x0347 0x00,
    Reg 0x0348 0x24, Reg 0x0349 0x1F, Reg 0x034A 0x1B, Reg 0x034B 0x1F,
    Reg 0x0900 0x01, Reg 0x0901 0x22, Reg 0x0902 0x08, Reg 0x30D8 0x04,
    Reg 0x3200 0x41, Reg 0x3201 0x41, Reg 0x0408 0x00, Reg 0x0409 0x00,
    Reg 0x040A 0x00, Reg 0x040B 0x00, Reg 0x040C 0x12, Reg 0x040D 0x10,
    Reg 0x040E 0x0D, Reg 0x040F 0x90, Reg 0x034C 0x12, Reg 0x034D 0x10,
    Reg 0x034E 0x0D, Reg 0x034F 0x90, Reg 0x30D9 0x00, Reg 0x32D5 0x00,
    Reg 0x32D6 0x00, Reg 0x401E 0x00, Reg 0x40B8 0x01, Reg 0x40B9 0x2C,
    Reg 0x40BC 0x01, Reg 0x40BD 0x18, Reg 0x40BE 0x00, Reg 0x40BF 0x00,
    Reg 0x41A4 0x00, Reg 0x5A09 0x01, Reg 0x5A17 0x01, Reg 0x5A25 0x01,
    Reg 0x5A33 0x01, Reg 0x98D7 0xB4, Reg 0x98D8 0x8C, Reg 0x98D9 0x0A,
    Reg 0x99C4 0x16, Reg 0x341A 0x00, Reg 0x341B 0x00, Reg 0x341C 0x00,
    Reg 0x341D 0x00, Reg 0x341E 0x01, Reg 0x341F 0x21, Reg 0x3420 0x01,
    Reg 0x3421 0x21]"

definition mode_3840x2160_regs :: "arducam_64mp_reg list" where
  "mode_3840x2160_regs = [
    Reg 0x0342 0x4E, Reg 0x0343 0xB7, Reg 0x0340 0x08, Reg 0x0341 0xB9,
    Reg 0x0344 0x03, Reg 0x0345 0x10, Reg 0x0346 0x05, Reg 0x0347 0x20,
    Reg 0x0348 0x21, Reg 0x0349 0x0F, Reg 0x034A 0x15, Reg 0x034B 0xFF,
    Reg 0x0900 0x01, Reg 0x0901 0x22, Reg 0x0902 0x08, Reg 0x30D8 0x04,
    Reg 0x3200 0x41, Reg 0x3201 0x41, Reg 0x0408 0x00, Reg 0x0409 0x00,
    Reg 0x040A 0x00, Reg 0x040B 0x00, Reg 0x040C 0x0F, Reg 0x040D 0x00,
    Reg 0x040E 0x08, Reg 0x040F 0x70, Reg 0x034C 0x0F, Reg 0x034D 0x00,
    Reg 0x034E 0x08, Reg 0x034F 0x70, Reg 0x30D9 0x00, Reg 0x32D5 0x00,
    Reg 0x32D6 0x00, Reg 0x401E 0x00, Reg 0x40B8 0x01, Reg 0x40B9 0x2C,
    Reg 0x40BC 0x01, Reg 0x40BD 0x18, Reg 0x40BE 0x00, Reg 0x40BF 0x00,
    Reg 0x41A4 0x00, Reg 0x5A09 0x01, Reg 0x5A17 0x01, Reg 0x5A25 0x01,
    Reg 0x5A33 0x01, Reg 0x98D7 0xB4, Reg 0x98D8 0x8C, Reg 0x98D9 0x0A,
    Reg 0x99C4 0x16, Reg 0x341A 0x00, Reg 0x341B 0x00, Reg 0x341C 0x00,
    Reg 0x341D 0x00, Reg 0x341E 0x00, Reg 0x341F 0xF0, Reg 0x3420 0x00,
    Reg 0x3421 0xB4]"

definition mode_2312x1736_regs :: "arducam_64mp_reg list" where
  "mode_2312x1736_regs = [
    Reg 0x0342 0x33, Reg 0x0343 0x60, Reg 0x0340 0x08, Reg 0x0341 0xE9,
    Reg 0x0344 0x00, Reg 0x0345 0x00, Reg 0x0346 0x00, Reg 0x0347 0x00,
    Reg 0x0348 0x24, Reg 0x0349 0x1F, Reg 0x034A 0x1B, Reg 0x034B 0x1F,
    Reg 0x0900 0x01, Reg 0x0901 0x44, Reg 0x0902 0x08, Reg 0x30D8 0x04,
    Reg 0x3200 0x43, Reg 0x3201 0x43, Reg 0x0408 0x00, Reg 0x0409 0x00,
    Reg 0x040A 0x00, Reg 0x040B 0x00, Reg 0x040C 0x09, Reg 0x040D 0x08,
    Reg 0x040E 0x06, Reg 0x040F 0xC8, Reg 0x034C 0x09, Reg 0x034D 0x08,
    Reg 0x034E 0x06, Reg 0x034F 0xC8, Reg 0x30D9 0x00, Reg 0x32D5 0x00,
    Reg 0x32D6 0x00, Reg 0x401E 0x00, Reg 0x40B8 0x01, Reg 0x40B9 0x2C,
    Reg 0x40BC 0x01, Reg 0x40BD 0x18, Reg 0x40BE 0x00, Reg 0x40BF 0x00,
    Reg 0x41A4 0x00, Reg 0x5A09 0x01, Reg 0x5A17 0x01, Reg 0x5A25 0x01,
    Reg 0x5A33 0x01, Reg 0x98D7 0xB4, Reg 0x98D8 0x8C, Reg 0x98D9 0x0A,
    Reg 0x99C4 0x16, Reg 0x341A 0x00, Reg 0x341B 0x00, Reg 0x341C 0x00,
    Reg 0x341D 0x00, Reg 0x341E 0x00, Reg 0x341F 0x90, Reg 0x3420 0x00,
    Reg 0x3421 0x90]"

definition mode_1920x1080_regs :: "arducam_64mp_reg list" where
  "mode_1920x1080_regs = [
    Reg 0x0342 0x29, Reg 0x0343 0xE3, Reg 0x0340 0x05, Reg 0x0341 0x76,
    Reg 0x0344 0x03, Reg 0x0345 0x10, Reg 0x0346 0x05, Reg 0x0347 0x20,
    Reg 0x0348 0x21, Reg 0x0349 0x0F, Reg 0x034A 0x16, Reg 0x034B 0x0F,
    Reg 0x0900 0x01, Reg 0x0901 0x44, Reg 0x0902 0x08, Reg 0x30D8 0x04,
    Reg 0x3200 0x43, Reg 0x3201 0x43, Reg 0x0408 0x00, Reg 0x0409 0x00,
    Reg 0x040A 0x00, Reg 0x040B 0x00, Reg 0x040C 0x07, Reg 0x040D 0x80,
    Reg 0x040E 0x04, Reg 0x040F 0x38, Reg 0x034C 0x07, Reg 0x034D 0x80,
    Reg 0x034E 0x04, Reg 0x034F 0x38, Reg 0x30D9 0x00, Reg 0x32D5 0x00,
    Reg 0x32D6 0x00, Reg 0x401E 0x00, Reg 0x40B8 0x01, Reg 0x40B9 0x2C,
    Reg 0x40BC 0x01, Reg 0x40BD 0x18, Reg 0x40BE 0x00, Reg 0x40BF 0x00,
    Reg 0x41A4 0x00, Reg 0x5A09 0x01, Reg 0x5A17 0x01, Reg 0x5A25 0x01,
    Reg 0x5A33 0x01, Reg 0x98D7 0xB4, Reg 0x98D8 0x8C, Reg 0x98D9 0x0A,
    Reg 0x99C4 0x16, Reg 0x341A 0x00, Reg 0x341B 0x00, Reg 0x341C 0x00,
    Reg 0x341D 0x00, Reg 0x341E 0x00, Reg 0x341F 0x78, Reg 0x3420 0x00,
    Reg 0x3421 0x5A]"

definition mode_1280x720_regs :: "arducam_64mp_reg list" where
  "mode_1280x720_regs = [
    Reg 0x0342 0x1B, Reg 0x0343 0x08, Reg 0x0340 0x04, Reg 0x0341 0x3B,
    Reg 0x0344 0x08, Reg 0x0345 0x10, Reg 0x0346 0x07, Reg 0x0347 0xF0,
    Reg 0x0348 0x1C, Reg 0x0349 0x0F, Reg 0x034A 0x13, Reg 0x034B 0x3F,
    Reg 0x0900 0x01, Reg 0x0901 0x44, Reg 0x0902 0x08, Reg 0x30D8 0x04,
    Reg 0x3200 0x43, Reg 0x3201 0x43, Reg 0x0408 0x00, Reg 0x0409 0x00,
    Reg 0x040A 0x00, Reg 0x040B 0x00, Reg 0x040C 0x05, Reg 0x040D 0x00,
    Reg 0x040E 0x02, Reg 0x040F 0xD0, Reg 0x034C 0x05, Reg 0x034D 0x00,
    Reg 0x034E 0x02, Reg 0x034F 0xD0, Reg 0x30D9 0x00, Reg 0x32D5 0x00,
    Reg 0x32D6 0x00, Reg 0x401E 0x00, Reg 0x40B8 0x01, Reg 0x40B9 0x2C,
    Reg 0x40BC 0x01, Reg 0x40BD 0x18, Reg 0x40BE 0x00, Reg 0x40BF 0x00,
    Reg 0x41A4 0x00, Reg 0x5A09 0x01, Reg 0x5A17 0x01, Reg 0x5A25 0x01,
    Reg 0x5A33 0x01, Reg 0x98D7 0xB4, Reg 0x98D8 0x8C, Reg 0x98D9 0x0A,
    Reg 0x99C4 0x16, Reg 0x341A 0x00, Reg 0x341B 0x00, Reg 0x341C 0x00,
    Reg 0x341D 0x00, Reg 0x341E 0x00, Reg 0x341F 0x50, Reg 0x3420 0x00,
    Reg 0x3421 0x3C]"

subsection \<open>Modes\<close>

record v4l2_rect =
  left :: u32
  top :: u32
  width :: u32
  height :: u32

record v4l2_fract =
  numerator :: u32
  denominator :: u32

text \<open>
  The media-bus codes the driver names. They are an enumeration in the kernel headers; only
  their identity matters here.
\<close>

datatype mbus_code =
    MEDIA_BUS_FMT_SRGGB10_1X10
  | MEDIA_BUS_FMT_SGRBG10_1X10
  | MEDIA_BUS_FMT_SGBRG10_1X10
  | MEDIA_BUS_FMT_SBGGR10_1X10
  | MEDIA_BUS_FMT_SENSOR_DATA
  | MEDIA_BUS_FMT_OTHER u32

datatype v4l2_field = V4L2_FIELD_ANY | V4L2_FIELD_NONE
datatype v4l2_colorspace = V4L2_COLORSPACE_DEFAULT | V4L2_COLORSPACE_RAW

text \<open>
  \<^verbatim>\<open>struct v4l2_mbus_framefmt\<close>. The three fields that
  \<^verbatim>\<open>arducam_64mp_reset_colorspace\<close> derives from the colour space through header
  macros are functions of \<open>colorspace\<close> alone and are not carried separately.
\<close>

record v4l2_mbus_framefmt =
  width :: u32
  height :: u32
  code :: mbus_code
  field :: v4l2_field
  colorspace :: v4l2_colorspace

datatype v4l2_subdev_format_whence = V4L2_SUBDEV_FORMAT_TRY | V4L2_SUBDEV_FORMAT_ACTIVE

record v4l2_subdev_format =
  which :: v4l2_subdev_format_whence
  pad :: u32
  format :: v4l2_mbus_framefmt

text \<open>
  \<^verbatim>\<open>struct arducam_64mp_mode\<close>. The register list carries its own length
  (\<^verbatim>\<open>num_of_regs\<close> is always \<^verbatim>\<open>ARRAY_SIZE\<close> of the table).
\<close>

record arducam_64mp_mode =
  width :: u32
  height :: u32
  line_length_pix :: u32
  crop :: v4l2_rect
  timeperframe_default :: v4l2_fract
  reg_list :: "arducam_64mp_reg list"

definition supported_modes :: "arducam_64mp_mode list" where
  "supported_modes = [
    \<lparr> width = 9152, height = 6944, line_length_pix = 0xb6b2,
      crop = \<lparr> left = ARDUCAM_64MP_PIXEL_ARRAY_LEFT, top = ARDUCAM_64MP_PIXEL_ARRAY_TOP,
               v4l2_rect.width = 9248, v4l2_rect.height = 6944 \<rparr>,
      timeperframe_default = \<lparr> numerator = 100, denominator = 270 \<rparr>,
      reg_list = mode_9152x6944_regs \<rparr>,
    \<lparr> width = 8000, height = 6000, line_length_pix = 0xb6b2,
      crop = \<lparr> left = ARDUCAM_64MP_PIXEL_ARRAY_LEFT + 624,
               top = ARDUCAM_64MP_PIXEL_ARRAY_TOP + 472,
               v4l2_rect.width = 9248, v4l2_rect.height = 6944 \<rparr>,
      timeperframe_default = \<lparr> numerator = 100, denominator = 300 \<rparr>,
      reg_list = mode_8000x6000_regs \<rparr>,
    \<lparr> width = 4624, height = 3472, line_length_pix = 0x6397,
      crop = \<lparr> left = ARDUCAM_64MP_PIXEL_ARRAY_LEFT, top = ARDUCAM_64MP_PIXEL_ARRAY_TOP,
               v4l2_rect.width = 9248, v4l2_rect.height = 6944 \<rparr>,
      timeperframe_default = \<lparr> numerator = 100, denominator = 1000 \<rparr>,
      reg_list = mode_4624x3472_regs \<rparr>,
    \<lparr> width = 3840, height = 2160, line_length_pix = 0x4eb7,
      crop = \<lparr> left = ARDUCAM_64MP_PIXEL_ARRAY_LEFT + 784,
               top = ARDUCAM_64MP_PIXEL_ARRAY_TOP + 1312,
               v4l2_rect.width = 7680, v4l2_rect.height = 4320 \<rparr>,
      timeperframe_default = \<lparr> numerator = 100, denominator = 2000 \<rparr>,
      reg_list = mode_3840x2160_regs \<rparr>,
    \<lparr> width = 2312, height = 1736, line_length_pix = 0x3360,
      crop = \<lparr> left = ARDUCAM_64MP_PIXEL_ARRAY_LEFT, top = ARDUCAM_64MP_PIXEL_ARRAY_TOP,
               v4l2_rect.width = 9248, v4l2_rect.height = 6944 \<rparr>,
      timeperframe_default = \<lparr> numerator = 100, denominator = 3000 \<rparr>,
      reg_list = mode_2312x1736_regs \<rparr>,
    \<lparr> width = 1920, height = 1080, line_length_pix = 0x29e3,
      crop = \<lparr> left = ARDUCAM_64MP_PIXEL_ARRAY_LEFT + 784,
               top = ARDUCAM_64MP_PIXEL_ARRAY_TOP + 1312,
               v4l2_rect.width = 7680, v4l2_rect.height = 4320 \<rparr>,
      timeperframe_default = \<lparr> numerator = 100, denominator = 6000 \<rparr>,
      reg_list = mode_1920x1080_regs \<rparr>,
    \<lparr> width = 1280, height = 720, line_length_pix = 0x1b08,
      crop = \<lparr> left = ARDUCAM_64MP_PIXEL_ARRAY_LEFT + 2064,
               top = ARDUCAM_64MP_PIXEL_ARRAY_TOP + 2032,
               v4l2_rect.width = 5120, v4l2_rect.height = 2880 \<rparr>,
      timeperframe_default = \<lparr> numerator = 100, denominator = 12000 \<rparr>,
      reg_list = mode_1280x720_regs \<rparr>
  ]"

text \<open>
  The supported formats. The table holds four entries per format, one for each flip
  combination, in the order: no flip, h flip, v flip, h and v flips.
\<close>

definition codes :: "mbus_code list" where
  "codes = [
    MEDIA_BUS_FMT_SRGGB10_1X10,
    MEDIA_BUS_FMT_SGRBG10_1X10,
    MEDIA_BUS_FMT_SGBRG10_1X10,
    MEDIA_BUS_FMT_SBGGR10_1X10]"

definition arducam_64mp_test_pattern_val :: "int list" where
  "arducam_64mp_test_pattern_val = [0, 2, 1, 3, 4]"

subsection \<open>Controls\<close>

text \<open>
  The controls the driver creates itself in \<^verbatim>\<open>arducam_64mp_init_controls\<close>. (The two
  read-only controls that a framework helper adds from firmware properties never reach the
  driver and are left out.)
\<close>

datatype v4l2_cid =
    V4L2_CID_PIXEL_RATE
  | V4L2_CID_LINK_FREQ
  | V4L2_CID_VBLANK
  | V4L2_CID_HBLANK
  | V4L2_CID_EXPOSURE
  | V4L2_CID_ANALOGUE_GAIN
  | V4L2_CID_DIGITAL_GAIN
  | V4L2_CID_HFLIP
  | V4L2_CID_VFLIP
  | V4L2_CID_TEST_PATTERN
  | V4L2_CID_TEST_PATTERN_RED
  | V4L2_CID_TEST_PATTERN_GREENR
  | V4L2_CID_TEST_PATTERN_BLUE
  | V4L2_CID_TEST_PATTERN_GREENB

text \<open>
  The fields of \<^verbatim>\<open>struct v4l2_ctrl\<close> the driver reads or sets. \<open>val\<close> is a signed
  32-bit value in C and the range fields are signed 64-bit; they are integers here, and the
  places where the driver computes them in unsigned arithmetic convert explicitly. The two
  flags are \<^verbatim>\<open>V4L2_CTRL_FLAG_READ_ONLY\<close> and \<^verbatim>\<open>V4L2_CTRL_FLAG_GRABBED\<close>.
\<close>

record v4l2_ctrl =
  minimum :: int
  maximum :: int
  step :: int
  default_value :: int
  val :: int
  read_only :: bool
  grabbed :: bool

subsection \<open>The I2C bus and the power domain\<close>

text \<open>
  The register transport is outside the driver. A transfer either completes, in which case
  \<^verbatim>\<open>i2c_master_send\<close> returns the number of bytes handed to it, or the call returns
  some other value. \<open>pending\<close> lists the outcomes of the transfers still to come (once it
  is used up every transfer completes); \<open>wire\<close> records every call in order, with the
  bytes handed over and the value returned.
\<close>

datatype i2c_outcome = Complete | Returns int

record i2c_client =
  pending :: "i2c_outcome list"
  wire :: "(u8 list \<times> int) list"

definition i2c_master_send :: "i2c_client \<Rightarrow> u8 list \<Rightarrow> int \<times> i2c_client" where
  "i2c_master_send c buf =
     (let r = (case pending c of
                 [] \<Rightarrow> int (length buf)
               | Complete # _ \<Rightarrow> int (length buf)
               | Returns e # _ \<Rightarrow> e)
      in (r, c\<lparr>pending := tl (pending c), wire := wire c @ [(buf, r)]\<rparr>))"

text \<open>
  The device's power state: the runtime-PM usage counter and status, the rails, the clock
  and the reset line. \<open>regulator_ret\<close> and \<open>clk_ret\<close> are what
  \<^verbatim>\<open>regulator_bulk_enable\<close> and \<^verbatim>\<open>clk_prepare_enable\<close> will return.
\<close>

record device =
  usage_count :: int
  runtime_active :: bool
  regulator_ret :: int
  clk_ret :: int
  supplies_on :: bool
  xclk_on :: bool
  reset_gpio :: bool

subsection \<open>Driver state\<close>

text \<open>
  \<^verbatim>\<open>struct arducam_64mp\<close>. The control pointers of the C struct
  (\<^verbatim>\<open>exposure\<close>, \<^verbatim>\<open>vflip\<close>, \<^verbatim>\<open>hflip\<close>, \<^verbatim>\<open>vblank\<close>, \<^verbatim>\<open>hblank\<close>)
  point into the control handler, which owns every control; they are lookups in
  \<open>ctrl_handler\<close> here. The mutex serialises the entry points and has no counterpart in a
  sequential model.
\<close>

record arducam_64mp =
  fmt_code :: mbus_code
  ctrl_handler :: "v4l2_cid \<Rightarrow> v4l2_ctrl"
  mode :: arducam_64mp_mode
  streaming :: bool
  common_regs_written :: bool
  long_exp_shift :: u32
  client :: i2c_client
  dev :: device

abbreviation exposure :: "arducam_64mp \<Rightarrow> v4l2_ctrl" where
  "exposure s \<equiv> ctrl_handler s V4L2_CID_EXPOSURE"
abbreviation vflip :: "arducam_64mp \<Rightarrow> v4l2_ctrl" where
  "vflip s \<equiv> ctrl_handler s V4L2_CID_VFLIP"
abbreviation hflip :: "arducam_64mp \<Rightarrow> v4l2_ctrl" where
  "hflip s \<equiv> ctrl_handler s V4L2_CID_HFLIP"
abbreviation vblank :: "arducam_64mp \<Rightarrow> v4l2_ctrl" where
  "vblank s \<equiv> ctrl_handler s V4L2_CID_VBLANK"
abbreviation hblank :: "arducam_64mp \<Rightarrow> v4l2_ctrl" where
  "hblank s \<equiv> ctrl_handler s V4L2_CID_HBLANK"

section \<open>Register access\<close>

definition put_unaligned_be16 :: "u16 \<Rightarrow> u8 list" where
  "put_unaligned_be16 v = [ucast (drop_bit 8 v), ucast v]"

definition put_unaligned_be32 :: "u32 \<Rightarrow> u8 list" where
  "put_unaligned_be32 v =
     [ucast (drop_bit 24 v), ucast (drop_bit 16 v), ucast (drop_bit 8 v), ucast v]"

text \<open>
  Write registers up to 2 at a time. The six-byte buffer holds the big-endian address and
  the value shifted to the top of a big-endian 32-bit word; the first \<open>len + 2\<close> bytes
  are sent.
\<close>

definition arducam_64mp_write_reg ::
  "arducam_64mp \<Rightarrow> u16 \<Rightarrow> u32 \<Rightarrow> u32 \<Rightarrow> int \<times> arducam_64mp" where
  "arducam_64mp_write_reg s reg len v =
     (if len > 4 then (- EINVAL, s)
      else
        let buf = put_unaligned_be16 reg @ put_unaligned_be32 (push_bit (8 * (4 - unat len)) v);
            (n, c) = i2c_master_send (client s) (take (unat len + 2) buf)
        in if n \<noteq> int (unat len + 2) then (- EIO, s\<lparr>client := c\<rparr>)
           else (0, s\<lparr>client := c\<rparr>))"

text \<open>
  Write a list of registers: the \<^verbatim>\<open>for\<close> loop over the table, which every caller
  passes together with its \<^verbatim>\<open>ARRAY_SIZE\<close>. The first failing write ends the loop and
  its status is returned.
\<close>

fun arducam_64mp_write_regs ::
  "arducam_64mp \<Rightarrow> arducam_64mp_reg list \<Rightarrow> int \<times> arducam_64mp" where
  "arducam_64mp_write_regs s [] = (0, s)"
| "arducam_64mp_write_regs s (r # rs) =
     (case arducam_64mp_write_reg s (address r) 1 (ucast (arducam_64mp_reg.val r)) of
        (ret, s') \<Rightarrow> if ret \<noteq> 0 then (ret, s') else arducam_64mp_write_regs s' rs)"

text \<open>
  What a register write puts on the bus: the address, high byte first, followed by the
  value, high byte first.
\<close>

definition reg_frame_08 :: "u16 \<Rightarrow> u8 \<Rightarrow> u8 list" where
  "reg_frame_08 reg b = [ucast (drop_bit 8 reg), ucast reg, b]"

definition reg_frame_16 :: "u16 \<Rightarrow> u16 \<Rightarrow> u8 list" where
  "reg_frame_16 reg v = [ucast (drop_bit 8 reg), ucast reg, ucast (drop_bit 8 v), ucast v]"

section \<open>Format code\<close>

text \<open>Get bayer order based on flip setting.\<close>

definition arducam_64mp_get_format_code :: "arducam_64mp \<Rightarrow> mbus_code" where
  "arducam_64mp_get_format_code s =
     (let i = (if val (vflip s) \<noteq> 0 then 2 else 0) OR (if val (hflip s) \<noteq> 0 then 1 else (0::nat))
      in codes ! i)"

section \<open>Exposure range and frame length\<close>

text \<open>
  Modelled from the spec: \<^verbatim>\<open>__v4l2_ctrl_modify_range\<close> belongs to the control framework,
  outside the driver's file. It installs the new minimum, maximum, step and default of a
  control descriptor and clamps the control's current value into the new range.
\<close>

definition v4l2_ctrl_modify_range ::
  "v4l2_ctrl \<Rightarrow> int \<Rightarrow> int \<Rightarrow> int \<Rightarrow> int \<Rightarrow> v4l2_ctrl" where
  "v4l2_ctrl_modify_range c mn mx st df =
     c\<lparr>minimum := mn, maximum := mx, step := st, default_value := df,
       val := min (max (val c) mn) mx\<rparr>"

text \<open>
  Honour the VBLANK limits when setting exposure. \<^verbatim>\<open>exposure_max\<close> is computed in
  unsigned 32-bit arithmetic and stored in an \<^verbatim>\<open>int\<close>.
\<close>

definition arducam_64mp_adjust_exposure_range :: "arducam_64mp \<Rightarrow> arducam_64mp" where
  "arducam_64mp_adjust_exposure_range s =
     (let exposure_max = sint (height (mode s) + word_of_int (val (vblank s))
                               - ARDUCAM_64MP_EXPOSURE_OFFSET);
          exposure_def = min exposure_max (val (exposure s))
      in s\<lparr>ctrl_handler := (ctrl_handler s)
             (V4L2_CID_EXPOSURE :=
                v4l2_ctrl_modify_range (exposure s) (minimum (exposure s)) exposure_max
                  (step (exposure s)) exposure_def)\<rparr>)"

text \<open>
  The \<^verbatim>\<open>while\<close> loop of \<^verbatim>\<open>arducam_64mp_set_frame_length\<close>: it counts the shift in
  the driver state itself while halving the frame length.
\<close>

function set_frame_length_loop :: "arducam_64mp \<Rightarrow> u32 \<Rightarrow> arducam_64mp \<times> u32" where
  "set_frame_length_loop s v =
     (if v > ARDUCAM_64MP_FRAME_LENGTH_MAX
      then set_frame_length_loop (s\<lparr>long_exp_shift := long_exp_shift s + 1\<rparr>) (drop_bit 1 v)
      else (s, v))"
  by pat_completeness auto
termination
proof (relation "measure (\<lambda>(s, v). unat v)")
  show "wf (measure (\<lambda>(s, v). unat v))" by simp
next
  fix s :: arducam_64mp and v :: u32
  assume "ARDUCAM_64MP_FRAME_LENGTH_MAX < v"
  then have "0 < unat v"
    by (simp add: ARDUCAM_64MP_FRAME_LENGTH_MAX_def word_less_nat_alt)
  then have "unat v div 2 < unat v" by simp
  moreover have "unat (drop_bit 1 v) = drop_bit 1 (unat v)" by (rule unat_drop_bit_eq)
  moreover have "drop_bit 1 (unat v) = unat v div 2" by (simp add: drop_bit_eq_div)
  ultimately show "((s\<lparr>long_exp_shift := long_exp_shift s + 1\<rparr>, drop_bit 1 v), (s, v))
             \<in> measure (\<lambda>(s, v). unat v)"
    by simp
qed

declare set_frame_length_loop.simps [simp del]

definition arducam_64mp_set_frame_length :: "arducam_64mp \<Rightarrow> u32 \<Rightarrow> int \<times> arducam_64mp" where
  "arducam_64mp_set_frame_length s vblank_arg =
     (let v0 = vblank_arg + height (mode s);
          (s1, v) = set_frame_length_loop (s\<lparr>long_exp_shift := 0\<rparr>) v0;
          (ret, s2) = arducam_64mp_write_reg s1 ARDUCAM_64MP_REG_FRAME_LENGTH
                        ARDUCAM_64MP_REG_VALUE_16BIT v
      in if ret \<noteq> 0 then (ret, s2)
         else arducam_64mp_write_reg s2 ARDUCAM_64MP_LONG_EXP_SHIFT_REG
                ARDUCAM_64MP_REG_VALUE_08BIT (long_exp_shift s2))"

section \<open>Runtime power management\<close>

text \<open>Power/clock management functions.\<close>

definition arducam_64mp_power_on :: "arducam_64mp \<Rightarrow> int \<times> arducam_64mp" where
  "arducam_64mp_power_on s =
     (let d = dev s in
      if regulator_ret d \<noteq> 0 then (regulator_ret d, s)
      else if clk_ret d \<noteq> 0 then (clk_ret d, s\<lparr>dev := d\<lparr>supplies_on := False\<rparr>\<rparr>)
      else (0, s\<lparr>dev := d\<lparr>supplies_on := True, xclk_on := True, reset_gpio := True\<rparr>\<rparr>))"

definition arducam_64mp_power_off :: "arducam_64mp \<Rightarrow> int \<times> arducam_64mp" where
  "arducam_64mp_power_off s =
     (0, s\<lparr>dev := (dev s)\<lparr>reset_gpio := False, supplies_on := False, xclk_on := False\<rparr>,
           common_regs_written := False\<rparr>)"

text \<open>
  Modelled from the spec: the runtime-PM core is outside the driver's file. Taking a
  synchronous reference counts the user and powers the device on through
  \<open>arducam_64mp_power_on\<close> when it is not yet active; a failed power-on is returned and
  leaves the device inactive. Dropping a reference only decrements the counter: the
  power-off that may follow is a separate, later call of \<open>arducam_64mp_power_off\<close> by
  the PM core. \<^verbatim>\<open>pm_runtime_get_if_in_use\<close> takes a reference and returns 1 only when
  the device is powered and in use, and returns 0 without touching anything otherwise.
\<close>

definition pm_runtime_get_sync :: "arducam_64mp \<Rightarrow> int \<times> arducam_64mp" where
  "pm_runtime_get_sync s =
     (let s1 = s\<lparr>dev := (dev s)\<lparr>usage_count := usage_count (dev s) + 1\<rparr>\<rparr> in
      if runtime_active (dev s1) then (1, s1)
      else case arducam_64mp_power_on s1 of
             (ret, s2) \<Rightarrow> if ret \<noteq> 0 then (ret, s2)
                          else (0, s2\<lparr>dev := (dev s2)\<lparr>runtime_active := True\<rparr>\<rparr>))"

definition pm_runtime_put :: "device \<Rightarrow> device" where
  "pm_runtime_put d = d\<lparr>usage_count := usage_count d - 1\<rparr>"

definition pm_runtime_put_noidle :: "device \<Rightarrow> device" where
  "pm_runtime_put_noidle d = d\<lparr>usage_count := usage_count d - 1\<rparr>"

definition pm_runtime_get_if_in_use :: "device \<Rightarrow> int \<times> device" where
  "pm_runtime_get_if_in_use d =
     (if runtime_active d \<and> 0 < usage_count d
      then (1, d\<lparr>usage_count := usage_count d + 1\<rparr>)
      else (0, d))"

section \<open>Applying a control\<close>

text \<open>
  \<^verbatim>\<open>arducam_64mp_set_ctrl\<close>. The framework has stored the control's new value in
  \<open>val\<close> before the call; \<open>cid\<close> names the control. The index into
  \<open>arducam_64mp_test_pattern_val\<close> is a menu position, which the framework keeps within
  the menu.
\<close>

definition arducam_64mp_set_ctrl :: "arducam_64mp \<Rightarrow> v4l2_cid \<Rightarrow> int \<times> arducam_64mp" where
  "arducam_64mp_set_ctrl s0 cid =
     (let s = (if cid = V4L2_CID_VBLANK then arducam_64mp_adjust_exposure_range s0 else s0);
          (in_use, d) = pm_runtime_get_if_in_use (dev s)
      in if in_use = 0 then (0, s)
         else
           let s1 = s\<lparr>dev := d\<rparr>;
               v = val (ctrl_handler s1 cid);
               (ret, s2) =
                 (case cid of
                    V4L2_CID_ANALOGUE_GAIN \<Rightarrow>
                      arducam_64mp_write_reg s1 ARDUCAM_64MP_REG_ANALOG_GAIN
                        ARDUCAM_64MP_REG_VALUE_16BIT (word_of_int v)
                  | V4L2_CID_EXPOSURE \<Rightarrow>
                      arducam_64mp_write_reg s1 ARDUCAM_64MP_REG_EXPOSURE
                        ARDUCAM_64MP_REG_VALUE_16BIT
                        (word_of_int (v div 2 ^ unat (long_exp_shift s1)))
                  | V4L2_CID_DIGITAL_GAIN \<Rightarrow>
                      arducam_64mp_write_reg s1 ARDUCAM_64MP_REG_DIGITAL_GAIN
                        ARDUCAM_64MP_REG_VALUE_16BIT (word_of_int v)
                  | V4L2_CID_TEST_PATTERN \<Rightarrow>
                      arducam_64mp_write_reg s1 ARDUCAM_64MP_REG_TEST_PATTERN
                        ARDUCAM_64MP_REG_VALUE_16BIT
                        (word_of_int (arducam_64mp_test_pattern_val ! nat v))
                  | V4L2_CID_TEST_PATTERN_RED \<Rightarrow>
                      arducam_64mp_write_reg s1 ARDUCAM_64MP_REG_TEST_PATTERN_R
                        ARDUCAM_64MP_REG_VALUE_16BIT (word_of_int v)
                  | V4L2_CID_TEST_PATTERN_GREENR \<Rightarrow>
                      arducam_64mp_write_reg s1 ARDUCAM_64MP_REG_TEST_PATTERN_GR
                        ARDUCAM_64MP_REG_VALUE_16BIT (word_of_int v)
                  | V4L2_CID_TEST_PATTERN_BLUE \<Rightarrow>
                      arducam_64mp_write_reg s1 ARDUCAM_64MP_REG_TEST_PATTERN_B
                        ARDUCAM_64MP_REG_VALUE_16BIT (word_of_int v)
                  | V4L2_CID_TEST_PATTERN_GREENB \<Rightarrow>
                      arducam_64mp_write_reg s1 ARDUCAM_64MP_REG_TEST_PATTERN_GB
                        ARDUCAM_64MP_REG_VALUE_16BIT (word_of_int v)
                  | V4L2_CID_HFLIP \<Rightarrow>
                      arducam_64mp_write_reg s1 ARDUCAM_64MP_REG_ORIENTATION 1
                        (word_of_int (val (hflip s1) OR push_bit 1 (val (vflip s1))))
                  | V4L2_CID_VFLIP \<Rightarrow>
                      arducam_64mp_write_reg s1 ARDUCAM_64MP_REG_ORIENTATION 1
                        (word_of_int (val (hflip s1) OR push_bit 1 (val (vflip s1))))
                  | V4L2_CID_VBLANK \<Rightarrow>
                      arducam_64mp_set_frame_length s1 (word_of_int v)
                  | _ \<Rightarrow> (- EINVAL, s1))
           in (ret, s2\<lparr>dev := pm_runtime_put (dev s2)\<rparr>))"

text \<open>
  Modelled from the spec: \<^verbatim>\<open>__v4l2_ctrl_s_ctrl\<close> and
  \<^verbatim>\<open>__v4l2_ctrl_handler_setup\<close> belong to the control framework.
  Setting a control validates the value against the descriptor's range, records it and hands
  the control to the driver's \<open>arducam_64mp_set_ctrl\<close>. The handler setup replays every
  current control value through \<open>arducam_64mp_set_ctrl\<close>, in the order in which
  \<^verbatim>\<open>arducam_64mp_init_controls\<close> created the controls, skipping read-only controls
  and stopping at the first failure.
\<close>

definition v4l2_ctrl_s_ctrl :: "arducam_64mp \<Rightarrow> v4l2_cid \<Rightarrow> int \<Rightarrow> int \<times> arducam_64mp" where
  "v4l2_ctrl_s_ctrl s cid v =
     (let c = ctrl_handler s cid;
          c' = c\<lparr>val := min (max v (minimum c)) (maximum c)\<rparr>
      in arducam_64mp_set_ctrl (s\<lparr>ctrl_handler := (ctrl_handler s)(cid := c')\<rparr>) cid)"

definition handler_ctrls :: "v4l2_cid list" where
  "handler_ctrls =
     [V4L2_CID_PIXEL_RATE, V4L2_CID_LINK_FREQ, V4L2_CID_VBLANK, V4L2_CID_HBLANK,
      V4L2_CID_EXPOSURE, V4L2_CID_ANALOGUE_GAIN, V4L2_CID_DIGITAL_GAIN,
      V4L2_CID_HFLIP, V4L2_CID_VFLIP, V4L2_CID_TEST_PATTERN,
      V4L2_CID_TEST_PATTERN_RED, V4L2_CID_TEST_PATTERN_GREENR,
      V4L2_CID_TEST_PATTERN_BLUE, V4L2_CID_TEST_PATTERN_GREENB]"

fun ctrl_replay :: "arducam_64mp \<Rightarrow> v4l2_cid list \<Rightarrow> int \<times> arducam_64mp" where
  "ctrl_replay s [] = (0, s)"
| "ctrl_replay s (c # cs) =
     (if read_only (ctrl_handler s c) then ctrl_replay s cs
      else case arducam_64mp_set_ctrl s c of
             (ret, s') \<Rightarrow> if ret \<noteq> 0 then (ret, s') else ctrl_replay s' cs)"

definition v4l2_ctrl_handler_setup :: "arducam_64mp \<Rightarrow> int \<times> arducam_64mp" where
  "v4l2_ctrl_handler_setup s = ctrl_replay s handler_ctrls"

text \<open>
  Modelled from the spec: \<^verbatim>\<open>__v4l2_ctrl_grab\<close> (control framework) locks a control
  against edits while streaming and unlocks it again.
\<close>

definition v4l2_ctrl_grab :: "arducam_64mp \<Rightarrow> v4l2_cid \<Rightarrow> bool \<Rightarrow> arducam_64mp" where
  "v4l2_ctrl_grab s cid g =
     s\<lparr>ctrl_handler := (ctrl_handler s)(cid := (ctrl_handler s cid)\<lparr>grabbed := g\<rparr>)\<rparr>"

section \<open>Frame length from a frame interval\<close>

text \<open>
  \<^verbatim>\<open>do_div(n, base)\<close> is the kernel's 64-by-32 division macro
  (\<^verbatim>\<open>asm-generic/div64.h\<close>): it narrows \<open>base\<close> to \<^verbatim>\<open>uint32_t\<close> and replaces
  \<open>n\<close> by the quotient. Dividing by zero has no result.
\<close>

definition do_div :: "u64 \<Rightarrow> u64 \<Rightarrow> u64 option" where
  "do_div n base =
     (let b = (ucast base :: u32) in if b = 0 then None else Some (n div ucast b))"

definition arducam_64mp_get_frame_length :: "arducam_64mp_mode \<Rightarrow> v4l2_fract \<Rightarrow> u32 option" where
  "arducam_64mp_get_frame_length m timeperframe =
     (case do_div (ucast (numerator timeperframe) * ARDUCAM_64MP_PIXEL_RATE)
                  (ucast (denominator timeperframe) * ucast (line_length_pix m)) of
        None \<Rightarrow> None
      | Some q \<Rightarrow>
          let frame_length = (if q > ucast ARDUCAM_64MP_FRAME_LENGTH_MAX
                              then ucast ARDUCAM_64MP_FRAME_LENGTH_MAX else q)
          in Some (max (ucast frame_length) (height m)))"

definition arducam_64mp_set_framing_limits :: "arducam_64mp \<Rightarrow> arducam_64mp option" where
  "arducam_64mp_set_framing_limits s =
     (let m = mode s in
      case arducam_64mp_get_frame_length m (timeperframe_default m) of
        None \<Rightarrow> None
      | Some frm_length_min \<Rightarrow>
          let frm_length_default = frm_length_min;
              s1 = s\<lparr>long_exp_shift := 0\<rparr>;
              s2 = s1\<lparr>ctrl_handler := (ctrl_handler s1)
                     (V4L2_CID_VBLANK :=
                        v4l2_ctrl_modify_range (vblank s1)
                          (uint (frm_length_min - height m))
                          (uint (push_bit ARDUCAM_64MP_LONG_EXP_SHIFT_MAX 1
                                   * ARDUCAM_64MP_FRAME_LENGTH_MAX - height m))
                          1 (uint (frm_length_default - height m)))\<rparr>;
              (ret, s3) = v4l2_ctrl_s_ctrl s2 V4L2_CID_VBLANK
                            (sint (frm_length_default - height m));
              hb = line_length_pix m - width m
          in Some (s3\<lparr>ctrl_handler := (ctrl_handler s3)
                     (V4L2_CID_HBLANK :=
                        v4l2_ctrl_modify_range (hblank s3) (uint hb) (uint hb) 1 (uint hb))\<rparr>))"

section \<open>Format negotiation\<close>

text \<open>
  Modelled from the spec: \<^verbatim>\<open>v4l2_find_nearest_size\<close> belongs to the V4L2 core, outside
  the driver's file. It selects from a table of sizes the entry nearest to the requested
  width and height, where the distance is the sum of the absolute differences of the two
  dimensions; among entries at the same distance the first in table order wins. An empty
  table has no nearest entry.
\<close>

definition size_error :: "arducam_64mp_mode \<Rightarrow> u32 \<Rightarrow> u32 \<Rightarrow> int" where
  "size_error m w h = \<bar>uint (width m) - uint w\<bar> + \<bar>uint (height m) - uint h\<bar>"

fun nearest_scan ::
  "arducam_64mp_mode \<Rightarrow> arducam_64mp_mode list \<Rightarrow> u32 \<Rightarrow> u32 \<Rightarrow> arducam_64mp_mode" where
  "nearest_scan best [] w h = best"
| "nearest_scan best (m # ms) w h =
     nearest_scan (if size_error m w h < size_error best w h then m else best) ms w h"

definition v4l2_find_nearest_size ::
  "arducam_64mp_mode list \<Rightarrow> u32 \<Rightarrow> u32 \<Rightarrow> arducam_64mp_mode option" where
  "v4l2_find_nearest_size tbl w h =
     (case tbl of [] \<Rightarrow> None | m # ms \<Rightarrow> Some (nearest_scan m ms w h))"

definition arducam_64mp_reset_colorspace :: "v4l2_mbus_framefmt \<Rightarrow> v4l2_mbus_framefmt" where
  "arducam_64mp_reset_colorspace f = f\<lparr>colorspace := V4L2_COLORSPACE_RAW\<rparr>"

definition arducam_64mp_update_image_pad_format ::
  "arducam_64mp_mode \<Rightarrow> v4l2_subdev_format \<Rightarrow> v4l2_subdev_format" where
  "arducam_64mp_update_image_pad_format m fmt =
     fmt\<lparr>format := arducam_64mp_reset_colorspace
            ((format fmt)\<lparr>v4l2_mbus_framefmt.width := width m,
                           v4l2_mbus_framefmt.height := height m,
                           field := V4L2_FIELD_NONE\<rparr>)\<rparr>"

definition arducam_64mp_update_metadata_pad_format ::
  "v4l2_subdev_format \<Rightarrow> v4l2_subdev_format" where
  "arducam_64mp_update_metadata_pad_format fmt =
     fmt\<lparr>format := (format fmt)\<lparr>v4l2_mbus_framefmt.width := ARDUCAM_64MP_EMBEDDED_LINE_WIDTH,
                                  v4l2_mbus_framefmt.height := ARDUCAM_64MP_NUM_EMBEDDED_LINES,
                                  code := MEDIA_BUS_FMT_SENSOR_DATA,
                                  field := V4L2_FIELD_NONE\<rparr>\<rparr>"

text \<open>
  \<^verbatim>\<open>arducam_64mp_set_pad_format\<close>. \<open>sd_state\<close> holds the per-pad "try" formats.
  The result is \<open>None\<close> where the C code would dereference a null mode or divide by zero;
  otherwise it is the status, the driver state, the try formats and the format handed back
  to the caller.
\<close>

type_synonym v4l2_subdev_state = "u32 \<Rightarrow> v4l2_mbus_framefmt"

definition arducam_64mp_set_pad_format ::
  "arducam_64mp \<Rightarrow> v4l2_subdev_state \<Rightarrow> v4l2_subdev_format
     \<Rightarrow> (int \<times> arducam_64mp \<times> v4l2_subdev_state \<times> v4l2_subdev_format) option" where
  "arducam_64mp_set_pad_format s sd_state fmt0 =
     (if pad fmt0 \<ge> NUM_PADS then Some (- EINVAL, s, sd_state, fmt0)
      else if pad fmt0 = IMAGE_PAD then
        (let fmt1 = fmt0\<lparr>format := (format fmt0)\<lparr>code := arducam_64mp_get_format_code s\<rparr>\<rparr> in
         case v4l2_find_nearest_size supported_modes
                (v4l2_mbus_framefmt.width (format fmt1))
                (v4l2_mbus_framefmt.height (format fmt1)) of
           None \<Rightarrow> None
         | Some m \<Rightarrow>
             let fmt = arducam_64mp_update_image_pad_format m fmt1 in
             if which fmt = V4L2_SUBDEV_FORMAT_TRY
             then Some (0, s, sd_state(pad fmt := format fmt), fmt)
             else case arducam_64mp_set_framing_limits
                         (s\<lparr>mode := m, fmt_code := code (format fmt)\<rparr>) of
                    None \<Rightarrow> None
                  | Some s' \<Rightarrow> Some (0, s', sd_state, fmt))
      else if which fmt0 = V4L2_SUBDEV_FORMAT_TRY
        then Some (0, s, sd_state(pad fmt0 := format fmt0), fmt0)
        else Some (0, s, sd_state, arducam_64mp_update_metadata_pad_format fmt0))"

section \<open>Streaming\<close>

text \<open>Start streaming.\<close>

definition arducam_64mp_start_streaming :: "arducam_64mp \<Rightarrow> int \<times> arducam_64mp" where
  "arducam_64mp_start_streaming s =
     (let (ret0, s1) =
            (if \<not> common_regs_written s
             then case arducam_64mp_write_regs s mode_common_regs of
                    (ret, s') \<Rightarrow> if ret \<noteq> 0 then (ret, s')
                                 else (0, s'\<lparr>common_regs_written := True\<rparr>)
             else (0, s))
      in if ret0 \<noteq> 0 then (ret0, s1)
         else
           let (ret1, s2) = arducam_64mp_write_regs s1 (reg_list (mode s1))
           in if ret1 \<noteq> 0 then (ret1, s2)
              else
                let (ret2, s3) = v4l2_ctrl_handler_setup s2
                in if ret2 \<noteq> 0 then (ret2, s3)
                   else arducam_64mp_write_reg s3 ARDUCAM_64MP_REG_MODE_SELECT
                          ARDUCAM_64MP_REG_VALUE_08BIT ARDUCAM_64MP_MODE_STREAMING)"

text \<open>Stop streaming: the status of the write is logged and dropped.\<close>

definition arducam_64mp_stop_streaming :: "arducam_64mp \<Rightarrow> arducam_64mp" where
  "arducam_64mp_stop_streaming s =
     snd (arducam_64mp_write_reg s ARDUCAM_64MP_REG_MODE_SELECT
            ARDUCAM_64MP_REG_VALUE_08BIT ARDUCAM_64MP_MODE_STANDBY)"

text \<open>
  \<^verbatim>\<open>arducam_64mp_set_stream\<close>. \<open>enable\<close> is a C \<^verbatim>\<open>int\<close>; the comparison with
  the boolean \<open>streaming\<close> flag promotes the flag to 0 or 1.
\<close>

definition arducam_64mp_set_stream :: "arducam_64mp \<Rightarrow> int \<Rightarrow> int \<times> arducam_64mp" where
  "arducam_64mp_set_stream s enable =
     (if (if streaming s then 1 else 0) = enable then (0, s)
      else
        let finish = (\<lambda>ret s'.
              (ret, v4l2_ctrl_grab
                      (v4l2_ctrl_grab (s'\<lparr>streaming := (enable \<noteq> 0)\<rparr>)
                         V4L2_CID_VFLIP (enable \<noteq> 0))
                      V4L2_CID_HFLIP (enable \<noteq> 0)))
        in if enable \<noteq> 0 then
             (case pm_runtime_get_sync s of
                (ret, s1) \<Rightarrow>
                  if ret < 0 then (ret, s1\<lparr>dev := pm_runtime_put_noidle (dev s1)\<rparr>)
                  else case arducam_64mp_start_streaming s1 of
                         (ret', s2) \<Rightarrow>
                           if ret' \<noteq> 0 then (ret', s2\<lparr>dev := pm_runtime_put (dev s2)\<rparr>)
                           else finish ret' s2)
           else
             (let s1 = arducam_64mp_stop_streaming s
              in finish 0 (s1\<lparr>dev := pm_runtime_put (dev s1)\<rparr>)))"

definition arducam_64mp_suspend :: "arducam_64mp \<Rightarrow> int \<times> arducam_64mp" where
  "arducam_64mp_suspend s =
     (if streaming s then (0, arducam_64mp_stop_streaming s) else (0, s))"

definition arducam_64mp_resume :: "arducam_64mp \<Rightarrow> int \<times> arducam_64mp" where
  "arducam_64mp_resume s =
     (if streaming s
      then case arducam_64mp_start_streaming s of
             (ret, s1) \<Rightarrow>
               if ret \<noteq> 0 then (ret, (arducam_64mp_stop_streaming s1)\<lparr>streaming := False\<rparr>)
               else (0, s1)
      else (0, s))"

section \<open>Initial controls and sample states\<close>

text \<open>
  The descriptors \<^verbatim>\<open>arducam_64mp_init_controls\<close> creates, before the framing limits
  of the mode are applied: a new control starts at its default value.
\<close>

definition v4l2_ctrl_new_std :: "int \<Rightarrow> int \<Rightarrow> int \<Rightarrow> int \<Rightarrow> v4l2_ctrl" where
  "v4l2_ctrl_new_std mn mx st df =
     \<lparr>minimum = mn, maximum = mx, step = st, default_value = df, val = df,
      read_only = False, grabbed = False\<rparr>"

definition init_controls :: "v4l2_cid \<Rightarrow> v4l2_ctrl" where
  "init_controls cid =
     (case cid of
        V4L2_CID_PIXEL_RATE \<Rightarrow>
          (v4l2_ctrl_new_std 900000000 900000000 1 900000000)\<lparr>read_only := True\<rparr>
      | V4L2_CID_LINK_FREQ \<Rightarrow> (v4l2_ctrl_new_std 0 0 1 0)\<lparr>read_only := True\<rparr>
      | V4L2_CID_VBLANK \<Rightarrow> v4l2_ctrl_new_std 0 0xffff 1 0
      | V4L2_CID_HBLANK \<Rightarrow> (v4l2_ctrl_new_std 0 0xffff 1 0)\<lparr>read_only := True\<rparr>
      | V4L2_CID_EXPOSURE \<Rightarrow> v4l2_ctrl_new_std 9 (0xffff - 48) 1 0x3e8
      | V4L2_CID_ANALOGUE_GAIN \<Rightarrow> v4l2_ctrl_new_std 0 1008 1 0
      | V4L2_CID_DIGITAL_GAIN \<Rightarrow> v4l2_ctrl_new_std 0x0100 0x0fff 1 0x0100
      | V4L2_CID_HFLIP \<Rightarrow> v4l2_ctrl_new_std 0 1 1 0
      | V4L2_CID_VFLIP \<Rightarrow> v4l2_ctrl_new_std 0 1 1 0
      | V4L2_CID_TEST_PATTERN \<Rightarrow> v4l2_ctrl_new_std 0 4 1 0
      | V4L2_CID_TEST_PATTERN_RED \<Rightarrow> v4l2_ctrl_new_std 0 0x0fff 1 0x0fff
      | V4L2_CID_TEST_PATTERN_GREENR \<Rightarrow> v4l2_ctrl_new_std 0 0x0fff 1 0x0fff
      | V4L2_CID_TEST_PATTERN_BLUE \<Rightarrow> v4l2_ctrl_new_std 0 0x0fff 1 0x0fff
      | V4L2_CID_TEST_PATTERN_GREENB \<Rightarrow> v4l2_ctrl_new_std 0 0x0fff 1 0x0fff)"

text \<open>
  Sample states used to exercise the theorems below. \<open>idle_sensor\<close> is a sensor in its
  first mode, not streaming and powered down, on a bus where every transfer completes;
  \<open>powered_sensor\<close> is the same sensor powered up and held in use by one user.
\<close>

definition idle_sensor :: arducam_64mp where
  "idle_sensor =
     \<lparr>fmt_code = MEDIA_BUS_FMT_SRGGB10_1X10,
      ctrl_handler = init_controls,
      mode = supported_modes ! 0,
      streaming = False,
      common_regs_written = False,
      long_exp_shift = 0,
      client = \<lparr>pending = [], wire = []\<rparr>,
      dev = \<lparr>usage_count = 0, runtime_active = False, regulator_ret = 0, clk_ret = 0,
             supplies_on = False, xclk_on = False, reset_gpio = False\<rparr>\<rparr>"

definition powered_sensor :: arducam_64mp where
  "powered_sensor =
     idle_sensor\<lparr>dev := \<lparr>usage_count = 1, runtime_active = True, regulator_ret = 0,
                           clk_ret = 0, supplies_on = True, xclk_on = True,
                           reset_gpio = True\<rparr>\<rparr>"

text \<open>Setting one control's value, as the framework does before it calls the driver.\<close>

definition with_ctrl_val :: "arducam_64mp \<Rightarrow> v4l2_cid \<Rightarrow> int \<Rightarrow> arducam_64mp" where
  "with_ctrl_val s cid v =
     s\<lparr>ctrl_handler := (ctrl_handler s)(cid := (ctrl_handler s cid)\<lparr>val := v\<rparr>)\<rparr>"

text \<open>The same sensor on a bus whose next transfers have the given outcomes.\<close>

definition with_bus :: "arducam_64mp \<Rightarrow> i2c_outcome list \<Rightarrow> arducam_64mp" where
  "with_bus s os = s\<lparr>client := (client s)\<lparr>pending := os\<rparr>\<rparr>"

text \<open>The transfers a call has added to the bus record.\<close>

definition sent_since :: "arducam_64mp \<Rightarrow> arducam_64mp \<Rightarrow> (u8 list \<times> int) list" where
  "sent_since s s' = drop (length (wire (client s))) (wire (client s'))"

section \<open>Properties of register access and frame length\<close>

lemma top_byte_push24: "(ucast (drop_bit 24 (push_bit 24 (v::u32))) :: u8) = ucast v"
  by (rule bit_word_eqI) (auto simp add: bit_simps)

lemma bytes_push16_hi: "(ucast (drop_bit 24 (push_bit 16 (v::u32))) :: u8) = ucast (drop_bit 8 v)"
  by (rule bit_word_eqI) (auto simp add: bit_simps)

lemma bytes_push16_lo: "(ucast (drop_bit 16 (push_bit 16 (v::u32))) :: u8) = ucast v"
  by (rule bit_word_eqI) (auto simp add: bit_simps)

lemma byte1_ucast16: "(ucast (drop_bit 8 (ucast (v::u32) :: u16)) :: u8) = ucast (drop_bit 8 v)"
  by (rule bit_word_eqI) (auto simp add: bit_simps)

lemma byte0_ucast16: "(ucast (ucast (v::u32) :: u16) :: u8) = ucast v"
  by (rule bit_word_eqI) (auto simp add: bit_simps)

lemma write_reg_08:
  "arducam_64mp_write_reg s reg ARDUCAM_64MP_REG_VALUE_08BIT v =
     (let r = i2c_master_send (client s) (reg_frame_08 reg (ucast v))
      in (if fst r \<noteq> 3 then - EIO else 0, s\<lparr>client := snd r\<rparr>))"
  by (simp add: arducam_64mp_write_reg_def ARDUCAM_64MP_REG_VALUE_08BIT_def reg_frame_08_def
        put_unaligned_be16_def put_unaligned_be32_def top_byte_push24 case_prod_beta Let_def)

lemma write_reg_16:
  "arducam_64mp_write_reg s reg ARDUCAM_64MP_REG_VALUE_16BIT v =
     (let r = i2c_master_send (client s) (reg_frame_16 reg (ucast v))
      in (if fst r \<noteq> 4 then - EIO else 0, s\<lparr>client := snd r\<rparr>))"
  by (simp add: arducam_64mp_write_reg_def ARDUCAM_64MP_REG_VALUE_16BIT_def reg_frame_16_def
        put_unaligned_be16_def put_unaligned_be32_def bytes_push16_hi bytes_push16_lo
        byte1_ucast16 byte0_ucast16 case_prod_beta Let_def)

lemma loop_result:
  "set_frame_length_loop s v = (s', v') \<Longrightarrow>
     \<exists>k. s' = s\<lparr>long_exp_shift := long_exp_shift s + of_nat k\<rparr> \<and> v' = drop_bit k v \<and>
         v' \<le> ARDUCAM_64MP_FRAME_LENGTH_MAX \<and>
         (\<forall>j<k. ARDUCAM_64MP_FRAME_LENGTH_MAX < drop_bit j v)"
proof (induction s v arbitrary: s' v' rule: set_frame_length_loop.induct)
  case (1 s v)
  show ?case
  proof (cases "v > ARDUCAM_64MP_FRAME_LENGTH_MAX")
    case False
    with "1.prems" have "s' = s" "v' = v"
      by (simp_all add: set_frame_length_loop.simps)
    with False show ?thesis
      by (intro exI [of _ 0]) simp
  next
    case True
    with "1.prems" have
      "set_frame_length_loop (s\<lparr>long_exp_shift := long_exp_shift s + 1\<rparr>) (drop_bit 1 v) = (s', v')"
      by (simp add: set_frame_length_loop.simps)
    from "1.IH" [OF True this] obtain k where k:
      "s' = s\<lparr>long_exp_shift := long_exp_shift s + 1 + of_nat k\<rparr>"
      "v' = drop_bit k (drop_bit 1 v)"
      "v' \<le> ARDUCAM_64MP_FRAME_LENGTH_MAX"
      "\<forall>j<k. ARDUCAM_64MP_FRAME_LENGTH_MAX < drop_bit j (drop_bit 1 v)"
      by auto
    have "\<forall>j<Suc k. ARDUCAM_64MP_FRAME_LENGTH_MAX < drop_bit j v"
    proof (intro allI impI)
      fix j assume "j < Suc k"
      show "ARDUCAM_64MP_FRAME_LENGTH_MAX < drop_bit j v"
      proof (cases j)
        case 0 with True show ?thesis by simp
      next
        case (Suc i)
        with \<open>j < Suc k\<close> k(4) have "ARDUCAM_64MP_FRAME_LENGTH_MAX < drop_bit i (drop_bit 1 v)"
          by simp
        with Suc show ?thesis by (simp add: drop_bit_drop_bit)
      qed
    qed
    with k show ?thesis
      by (intro exI [of _ "Suc k"]) (simp add: drop_bit_drop_bit add.assoc)
  qed
qed

lemma unat_drop_bit_div: "unat (drop_bit k (v::u32)) = unat v div 2 ^ k"
proof -
  have "unat (drop_bit k v) = drop_bit k (unat v)" by (rule unat_drop_bit_eq)
  also have "\<dots> = unat v div 2 ^ k" by (rule drop_bit_eq_div)
  finally show ?thesis .
qed

lemma drop16_small: "drop_bit 16 (v::u32) \<le> ARDUCAM_64MP_FRAME_LENGTH_MAX"
proof -
  have "unat (drop_bit 16 v) = unat v div 2 ^ 16"
    by (rule unat_drop_bit_div)
  moreover have "unat v < 2 ^ 32" using unsigned_less [of v] by simp
  ultimately have "unat (drop_bit 16 v) \<le> 65535" by simp
  then show ?thesis
    unfolding ARDUCAM_64MP_FRAME_LENGTH_MAX_def word_le_nat_alt by simp
qed

lemma loop_shift_le_16:
  assumes "\<forall>j<k. ARDUCAM_64MP_FRAME_LENGTH_MAX < drop_bit j (v::u32)"
  shows "k \<le> 16"
proof (rule ccontr)
  assume "\<not> k \<le> 16"
  then have "16 < k" by simp
  with assms have "ARDUCAM_64MP_FRAME_LENGTH_MAX < drop_bit 16 v" by blast
  with drop16_small [of v] show False by simp
qed

lemma set_frame_length_eq:
  "\<exists>k\<le>16.
     drop_bit k (vb + height (mode s)) \<le> ARDUCAM_64MP_FRAME_LENGTH_MAX \<and>
     (\<forall>j<k. ARDUCAM_64MP_FRAME_LENGTH_MAX < drop_bit j (vb + height (mode s))) \<and>
     arducam_64mp_set_frame_length s vb =
       (let fl = drop_bit k (vb + height (mode s));
            s1 = s\<lparr>long_exp_shift := of_nat k\<rparr>;
            r1 = i2c_master_send (client s) (reg_frame_16 ARDUCAM_64MP_REG_FRAME_LENGTH (ucast fl))
        in if fst r1 \<noteq> 4 then (- EIO, s1\<lparr>client := snd r1\<rparr>)
           else let r2 = i2c_master_send (snd r1)
                           (reg_frame_08 ARDUCAM_64MP_LONG_EXP_SHIFT_REG (ucast (of_nat k :: u32)))
                in (if fst r2 \<noteq> 3 then - EIO else 0, s1\<lparr>client := snd r2\<rparr>))"
proof -
  obtain s1 v where l: "set_frame_length_loop (s\<lparr>long_exp_shift := 0\<rparr>) (vb + height (mode s)) = (s1, v)"
    by (cases "set_frame_length_loop (s\<lparr>long_exp_shift := 0\<rparr>) (vb + height (mode s))")
  from loop_result [OF l] obtain k where k:
    "s1 = s\<lparr>long_exp_shift := of_nat k\<rparr>" "v = drop_bit k (vb + height (mode s))"
    "v \<le> ARDUCAM_64MP_FRAME_LENGTH_MAX"
    "\<forall>j<k. ARDUCAM_64MP_FRAME_LENGTH_MAX < drop_bit j (vb + height (mode s))"
    by auto
  have k16: "k \<le> 16" using k(4) by (rule loop_shift_le_16)
  have "arducam_64mp_set_frame_length s vb =
       (let fl = drop_bit k (vb + height (mode s));
            s1 = s\<lparr>long_exp_shift := of_nat k\<rparr>;
            r1 = i2c_master_send (client s) (reg_frame_16 ARDUCAM_64MP_REG_FRAME_LENGTH (ucast fl))
        in if fst r1 \<noteq> 4 then (- EIO, s1\<lparr>client := snd r1\<rparr>)
           else let r2 = i2c_master_send (snd r1)
                           (reg_frame_08 ARDUCAM_64MP_LONG_EXP_SHIFT_REG (ucast (of_nat k :: u32)))
                in (if fst r2 \<noteq> 3 then - EIO else 0, s1\<lparr>client := snd r2\<rparr>))"
    by (simp add: arducam_64mp_set_frame_length_def l k(1,2) write_reg_16 write_reg_08
          Let_def EIO_def)
  with k k16 show ?thesis by blast
qed

lemma i2c_send_wire:
  "wire (snd (i2c_master_send c b)) = wire c @ [(b, fst (i2c_master_send c b))]"
  by (simp add: i2c_master_send_def Let_def)

lemma i2c_send_pending:
  "pending (snd (i2c_master_send c b)) = tl (pending c)"
  by (simp add: i2c_master_send_def Let_def)

lemma i2c_send_complete:
  "pending c = [] \<or> hd (pending c) = Complete \<Longrightarrow> fst (i2c_master_send c b) = int (length b)"
  by (auto simp add: i2c_master_send_def Let_def split: list.splits i2c_outcome.splits)

lemma i2c_send_returns:
  "pending c = Returns e # rest \<Longrightarrow> fst (i2c_master_send c b) = e"
  by (simp add: i2c_master_send_def Let_def)

lemma ucast_drop_bit_of_nat:
  "(ucast (drop_bit k (w::u32)) :: u16) = of_nat (unat w div 2 ^ k)"
proof -
  have "(ucast (drop_bit k w) :: u16) = of_nat (unat (drop_bit k w))"
    by simp
  then show ?thesis by (simp only: unat_drop_bit_div)
qed

lemma word_le_max_iff: "(w::u32) \<le> ARDUCAM_64MP_FRAME_LENGTH_MAX \<longleftrightarrow> unat w \<le> 65535"
  unfolding ARDUCAM_64MP_FRAME_LENGTH_MAX_def word_le_nat_alt by simp

lemma word_gt_max_iff: "ARDUCAM_64MP_FRAME_LENGTH_MAX < (w::u32) \<longleftrightarrow> 65535 < unat w"
  unfolding ARDUCAM_64MP_FRAME_LENGTH_MAX_def word_less_nat_alt by simp

lemma unat_of_nat_le16: "k \<le> 16 \<Longrightarrow> unat (of_nat k :: u32) = k"
  by (simp add: unat_of_nat take_bit_nat_eq_self)

lemma ucast_of_nat_u8: "(ucast (of_nat k :: u32) :: u8) = of_nat k"
  by (rule bit_word_eqI) (auto simp add: bit_simps)

text \<open>The full behaviour of set_frame_length in one equation.\<close>

lemma set_frame_length_cases:
  assumes "arducam_64mp_set_frame_length s vb = (ret, s')"
  obtains k r1 c1 r2 c2 where
    "k \<le> 16"
    "unat (vb + height (mode s)) div 2 ^ k \<le> 65535"
    "\<forall>j<k. 65535 < unat (vb + height (mode s)) div 2 ^ j"
    "long_exp_shift s' = of_nat k"
    "(r1, c1) = i2c_master_send (client s)
        (reg_frame_16 ARDUCAM_64MP_REG_FRAME_LENGTH
           (of_nat (unat (vb + height (mode s)) div 2 ^ k)))"
    "(r2, c2) = i2c_master_send c1 (reg_frame_08 ARDUCAM_64MP_LONG_EXP_SHIFT_REG (of_nat k))"
    "r1 \<noteq> 4 \<Longrightarrow> ret = - EIO \<and> s' = s\<lparr>long_exp_shift := of_nat k, client := c1\<rparr>"
    "r1 = 4 \<Longrightarrow> ret = (if r2 \<noteq> 3 then - EIO else 0)
                 \<and> s' = s\<lparr>long_exp_shift := of_nat k, client := c2\<rparr>"
proof -
  from set_frame_length_eq [of vb s] obtain k where k:
    "k \<le> 16"
    "drop_bit k (vb + height (mode s)) \<le> ARDUCAM_64MP_FRAME_LENGTH_MAX"
    "\<forall>j<k. ARDUCAM_64MP_FRAME_LENGTH_MAX < drop_bit j (vb + height (mode s))"
    "arducam_64mp_set_frame_length s vb =
       (let fl = drop_bit k (vb + height (mode s));
            s1 = s\<lparr>long_exp_shift := of_nat k\<rparr>;
            r1 = i2c_master_send (client s) (reg_frame_16 ARDUCAM_64MP_REG_FRAME_LENGTH (ucast fl))
        in if fst r1 \<noteq> 4 then (- EIO, s1\<lparr>client := snd r1\<rparr>)
           else let r2 = i2c_master_send (snd r1)
                           (reg_frame_08 ARDUCAM_64MP_LONG_EXP_SHIFT_REG (ucast (of_nat k :: u32)))
                in (if fst r2 \<noteq> 3 then - EIO else 0, s1\<lparr>client := snd r2\<rparr>))"
    by blast
  let ?raw = "unat (vb + height (mode s))"
  let ?x1 = "i2c_master_send (client s)
        (reg_frame_16 ARDUCAM_64MP_REG_FRAME_LENGTH (of_nat (?raw div 2 ^ k)))"
  let ?x2 = "i2c_master_send (snd ?x1) (reg_frame_08 ARDUCAM_64MP_LONG_EXP_SHIFT_REG (of_nat k))"
  have eq: "(ret, s') =
       (if fst ?x1 \<noteq> 4 then (- EIO, s\<lparr>long_exp_shift := of_nat k, client := snd ?x1\<rparr>)
        else (if fst ?x2 \<noteq> 3 then - EIO else 0, s\<lparr>long_exp_shift := of_nat k, client := snd ?x2\<rparr>))"
    using k(4) assms by (simp add: Let_def ucast_drop_bit_of_nat ucast_of_nat_u8)
  have a: "?raw div 2 ^ k \<le> 65535"
    using k(2) by (simp add: word_le_max_iff unat_drop_bit_div)
  have b: "\<forall>j<k. 65535 < ?raw div 2 ^ j"
    using k(3) by (simp add: word_gt_max_iff unat_drop_bit_div)
  have c: "long_exp_shift s' = of_nat k"
    using eq by (auto split: if_splits)
  show thesis
  proof (rule that [of k "fst ?x1" "snd ?x1" "fst ?x2" "snd ?x2"])
    show "k \<le> 16" by (rule k(1))
    show "?raw div 2 ^ k \<le> 65535" by (rule a)
    show "\<forall>j<k. 65535 < ?raw div 2 ^ j" by (rule b)
    show "long_exp_shift s' = of_nat k" by (rule c)
    show "(fst ?x1, snd ?x1) = ?x1" by simp
    show "(fst ?x2, snd ?x2) = ?x2" by simp
    show "ret = - EIO \<and> s' = s\<lparr>long_exp_shift := of_nat k, client := snd ?x1\<rparr>" if "fst ?x1 \<noteq> 4"
      using eq that by simp
    show "ret = (if fst ?x2 \<noteq> 3 then - EIO else 0)
          \<and> s' = s\<lparr>long_exp_shift := of_nat k, client := snd ?x2\<rparr>" if "fst ?x1 = 4"
      using eq that by simp
  qed
qed

lemma sent_since_append [simp]:
  "wire (client s') = wire (client s) @ xs \<Longrightarrow> sent_since s s' = xs"
  by (simp add: sent_since_def)

lemma idle_sensor_mode_height: "height (mode idle_sensor) = 6944"
  by (simp add: idle_sensor_def supported_modes_def)

lemma idle_sensor_client: "client idle_sensor = \<lparr>pending = [], wire = []\<rparr>"
  by (simp add: idle_sensor_def)

text \<open>
  C1. \<open>arducam_64mp_set_frame_length\<close> (apply\_vertical\_blank), for every \<open>vblank\<close>
  argument, with \<open>raw = vblank + mode.height\<close> in the unsigned 32-bit arithmetic of the
  C code: the shift left in the driver state is the least \<open>k\<close> with
  \<open>raw >> k \<le> 0xFFFF\<close>; the first transfer on the bus is the 16-bit write of
  \<open>raw >> k\<close> to the frame-length register; when the call succeeds the bus has seen
  exactly that write followed by the 8-bit write of \<open>k\<close> to the long-exposure-shift
  register; and it succeeds whenever the bus completes the two transfers.
\<close>

theorem set_frame_length_long_exposure_shift:
  assumes "arducam_64mp_set_frame_length s vb = (ret, s')"
  shows "let raw = unat (vb + height (mode s)); k = unat (long_exp_shift s') in
           raw div 2 ^ k \<le> 65535 \<and> (\<forall>j<k. 65535 < raw div 2 ^ j) \<and>
           (\<exists>r1 rest. sent_since s s' =
              (reg_frame_16 ARDUCAM_64MP_REG_FRAME_LENGTH (of_nat (raw div 2 ^ k)), r1) # rest) \<and>
           (ret = 0 \<longrightarrow> sent_since s s' =
              [(reg_frame_16 ARDUCAM_64MP_REG_FRAME_LENGTH (of_nat (raw div 2 ^ k)), 4),
               (reg_frame_08 ARDUCAM_64MP_LONG_EXP_SHIFT_REG (of_nat k), 3)]) \<and>
           ((\<forall>x \<in> set (take 2 (pending (client s))). x = Complete) \<longrightarrow> ret = 0)"
proof (rule set_frame_length_cases [OF assms])
  let ?raw = "unat (vb + height (mode s))"
  fix k r1 c1 r2 c2
  assume k: "k \<le> 16" "?raw div 2 ^ k \<le> 65535" "\<forall>j<k. 65535 < ?raw div 2 ^ j"
    "long_exp_shift s' = of_nat k"
    and x1: "(r1, c1) = i2c_master_send (client s)
        (reg_frame_16 ARDUCAM_64MP_REG_FRAME_LENGTH (of_nat (?raw div 2 ^ k)))"
    and x2: "(r2, c2) = i2c_master_send c1 (reg_frame_08 ARDUCAM_64MP_LONG_EXP_SHIFT_REG (of_nat k))"
    and fail: "r1 \<noteq> 4 \<Longrightarrow> ret = - EIO \<and> s' = s\<lparr>long_exp_shift := of_nat k, client := c1\<rparr>"
    and ok: "r1 = 4 \<Longrightarrow> ret = (if r2 \<noteq> 3 then - EIO else 0)
                 \<and> s' = s\<lparr>long_exp_shift := of_nat k, client := c2\<rparr>"
  have uk: "unat (long_exp_shift s') = k"
    using k(1,4) by (simp add: unat_of_nat_le16)
  have w1: "wire c1 = wire (client s) @
      [(reg_frame_16 ARDUCAM_64MP_REG_FRAME_LENGTH (of_nat (?raw div 2 ^ k)), r1)]"
    using i2c_send_wire [of "client s" "reg_frame_16 ARDUCAM_64MP_REG_FRAME_LENGTH (of_nat (?raw div 2 ^ k))"]
    by (simp flip: x1)
  have w2: "wire c2 = wire c1 @ [(reg_frame_08 ARDUCAM_64MP_LONG_EXP_SHIFT_REG (of_nat k), r2)]"
    using i2c_send_wire [of c1 "reg_frame_08 ARDUCAM_64MP_LONG_EXP_SHIFT_REG (of_nat k)"]
    by (simp flip: x2)
  have sent: "sent_since s s' =
      (reg_frame_16 ARDUCAM_64MP_REG_FRAME_LENGTH (of_nat (?raw div 2 ^ k)), r1)
      # (if r1 = 4 then [(reg_frame_08 ARDUCAM_64MP_LONG_EXP_SHIFT_REG (of_nat k), r2)] else [])"
  proof (cases "r1 = 4")
    case True
    with ok have "wire (client s') = wire c2" by simp
    with True w1 w2 show ?thesis by (simp add: sent_since_def)
  next
    case False
    with fail have "wire (client s') = wire c1" by simp
    with False w1 show ?thesis by (simp add: sent_since_def)
  qed
  have ret0: "ret = 0 \<Longrightarrow> r1 = 4 \<and> r2 = 3"
    using fail ok by (cases "r1 = 4") (auto simp add: EIO_def split: if_splits)
  have good: "ret = 0" if "\<forall>x \<in> set (take 2 (pending (client s))). x = Complete"
  proof -
    have p1: "pending (client s) = [] \<or> hd (pending (client s)) = Complete"
      using that by (cases "pending (client s)") auto
    have "r1 = fst (i2c_master_send (client s)
        (reg_frame_16 ARDUCAM_64MP_REG_FRAME_LENGTH (of_nat (?raw div 2 ^ k))))"
      by (simp flip: x1)
    with i2c_send_complete [OF p1] have r1: "r1 = 4" by (simp add: reg_frame_16_def)
    have "c1 = snd (i2c_master_send (client s)
        (reg_frame_16 ARDUCAM_64MP_REG_FRAME_LENGTH (of_nat (?raw div 2 ^ k))))"
      by (simp flip: x1)
    then have "pending c1 = tl (pending (client s))" by (simp add: i2c_send_pending)
    then have p2: "pending c1 = [] \<or> hd (pending c1) = Complete"
      using that by (cases "pending (client s)"; cases "tl (pending (client s))") auto
    have "r2 = fst (i2c_master_send c1 (reg_frame_08 ARDUCAM_64MP_LONG_EXP_SHIFT_REG (of_nat k)))"
      by (simp flip: x2)
    with i2c_send_complete [OF p2] have "r2 = 3" by (simp add: reg_frame_08_def)
    with r1 ok show ?thesis by simp
  qed
  show ?thesis
    unfolding Let_def uk
    using k(2,3) sent ret0 good by auto
qed

theorem set_frame_length_long_exposure_shift_witness:
  "arducam_64mp_set_frame_length idle_sensor 193056 =
     (0, idle_sensor\<lparr>long_exp_shift := 2,
           client := \<lparr>pending = [], wire = [([0x03, 0x40, 0xC3, 0x50], 4), ([0x31, 0x00, 0x02], 3)]\<rparr>\<rparr>)
   \<and> (200000::nat) div 2 ^ 2 \<le> 65535
   \<and> 65535 < (200000::nat) div 2 ^ 0 \<and> 65535 < (200000::nat) div 2 ^ 1"
proof -
  have h: "arducam_64mp_set_frame_length idle_sensor 193056 =
     (0, idle_sensor\<lparr>long_exp_shift := 2,
           client := \<lparr>pending = [], wire = [([0x03, 0x40, 0xC3, 0x50], 4), ([0x31, 0x00, 0x02], 3)]\<rparr>\<rparr>)"
    by (simp add: arducam_64mp_set_frame_length_def idle_sensor_mode_height idle_sensor_client
          set_frame_length_loop.simps ARDUCAM_64MP_FRAME_LENGTH_MAX_def
          arducam_64mp_write_reg_def i2c_master_send_def
          ARDUCAM_64MP_REG_VALUE_16BIT_def ARDUCAM_64MP_REG_VALUE_08BIT_def
          ARDUCAM_64MP_REG_FRAME_LENGTH_def ARDUCAM_64MP_LONG_EXP_SHIFT_REG_def
          put_unaligned_be16_def put_unaligned_be32_def EIO_def)
  from set_frame_length_long_exposure_shift [OF h]
  have "(200000::nat) div 2 ^ 2 \<le> 65535 \<and> (\<forall>j<2. 65535 < (200000::nat) div 2 ^ j)"
    by (simp add: idle_sensor_mode_height Let_def)
  then have "(200000::nat) div 2 ^ 2 \<le> 65535
      \<and> 65535 < (200000::nat) div 2 ^ 0 \<and> 65535 < (200000::nat) div 2 ^ 1"
    by simp
  with h show ?thesis by simp
qed

lemma with_bus_simps [simp]:
  "mode (with_bus s os) = mode s"
  "client (with_bus s os) = (client s)\<lparr>pending := os\<rparr>"
  "long_exp_shift (with_bus s os) = long_exp_shift s"
  by (simp_all add: with_bus_def)




lemma ucast_u8_u32_u8 [simp]: "(ucast (ucast (b::u8) :: u32) :: u8) = b"
  by (rule bit_word_eqI) (auto simp add: bit_simps)

lemma write_reg_entry:
  "arducam_64mp_write_reg s (address r) 1 (ucast (arducam_64mp_reg.val r)) =
     (let x = i2c_master_send (client s) (reg_frame_08 (address r) (arducam_64mp_reg.val r))
      in (if fst x \<noteq> 3 then - EIO else 0, s\<lparr>client := snd x\<rparr>))"
  using write_reg_08 [of s "address r" "ucast (arducam_64mp_reg.val r)"]
  by (simp add: ARDUCAM_64MP_REG_VALUE_08BIT_def)

lemma i2c_send_Complete:
  "pending c = Complete # rest \<Longrightarrow>
     i2c_master_send c b = (int (length b), \<lparr>pending = rest, wire = wire c @ [(b, int (length b))]\<rparr>)"
  by (cases c) (simp add: i2c_master_send_def Let_def)

lemma i2c_send_Returns:
  "pending c = Returns e # rest \<Longrightarrow>
     i2c_master_send c b = (e, \<lparr>pending = rest, wire = wire c @ [(b, e)]\<rparr>)"
  by (cases c) (simp add: i2c_master_send_def Let_def)

lemma i2c_send_Nil:
  "pending c = [] \<Longrightarrow>
     i2c_master_send c b = (int (length b), \<lparr>pending = [], wire = wire c @ [(b, int (length b))]\<rparr>)"
  by (cases c) (simp add: i2c_master_send_def Let_def)

text \<open>
  C9. \<open>arducam_64mp_write_regs\<close> (write\_list) on any register list: when the bus
  completes the first \<open>i\<close> transfers and fails the next one, the call returns the error of
  that write (\<open>-EIO\<close>); the bus has seen the writes of entries \<open>0..i-1\<close> in list order,
  each completed, then the failed attempt at entry \<open>i\<close>, and nothing for the entries after
  \<open>i\<close>. Nothing is rolled back, and no other part of the driver state changes.
\<close>

theorem write_regs_aborts_at_first_failure:
  assumes "i < length regs"
    and "pending (client s) = replicate i Complete @ Returns e # rest"
    and "e \<noteq> 3"
  shows "arducam_64mp_write_regs s regs =
     (- EIO,
      s\<lparr>client := \<lparr>pending = rest,
                    wire = wire (client s)
                      @ map (\<lambda>r. (reg_frame_08 (address r) (arducam_64mp_reg.val r), 3)) (take i regs)
                      @ [(reg_frame_08 (address (regs ! i)) (arducam_64mp_reg.val (regs ! i)), e)]\<rparr>\<rparr>)"
  using assms
proof (induction regs arbitrary: i s)
  case Nil
  then show ?case by simp
next
  case (Cons r rs)
  show ?case
  proof (cases i)
    case 0
    with Cons.prems have p: "pending (client s) = Returns e # rest" by simp
    show ?thesis
      using Cons.prems(3) 0
      by (simp add: write_reg_entry i2c_send_Returns [OF p] EIO_def)
  next
    case (Suc j)
    with Cons.prems have p: "pending (client s) = Complete # (replicate j Complete @ Returns e # rest)"
      by simp
    let ?c = "\<lparr>pending = replicate j Complete @ Returns e # rest,
               wire = wire (client s) @ [(reg_frame_08 (address r) (arducam_64mp_reg.val r), 3)]\<rparr>"
    have w: "arducam_64mp_write_reg s (address r) 1 (ucast (arducam_64mp_reg.val r)) =
               (0, s\<lparr>client := ?c\<rparr>)"
      by (simp add: write_reg_entry i2c_send_Complete [OF p] reg_frame_08_def)
    have j: "j < length rs" using Cons.prems(1) Suc by simp
    have "arducam_64mp_write_regs (s\<lparr>client := ?c\<rparr>) rs =
      (- EIO,
       s\<lparr>client := ?c\<rparr>\<lparr>client := \<lparr>pending = rest,
                    wire = wire (client (s\<lparr>client := ?c\<rparr>))
                      @ map (\<lambda>r. (reg_frame_08 (address r) (arducam_64mp_reg.val r), 3)) (take j rs)
                      @ [(reg_frame_08 (address (rs ! j)) (arducam_64mp_reg.val (rs ! j)), e)]\<rparr>\<rparr>)"
      by (rule Cons.IH [OF j _ Cons.prems(3)]) simp
    then show ?thesis
      using Suc by (simp add: w)
  qed
qed

theorem write_regs_aborts_at_first_failure_witness:
  "arducam_64mp_write_regs (with_bus idle_sensor [Complete, Returns (- 121)])
       [Reg 0x0100 0x00, Reg 0x0136 0x18, Reg 0x0137 0x00] =
     (- EIO,
      idle_sensor\<lparr>client := \<lparr>pending = [],
                    wire = [([0x01, 0x00, 0x00], 3), ([0x01, 0x36, 0x18], - 121)]\<rparr>\<rparr>)"
proof -
  have "arducam_64mp_write_regs (with_bus idle_sensor [Complete, Returns (- 121)])
       [Reg 0x0100 0x00, Reg 0x0136 0x18, Reg 0x0137 0x00] =
     (- EIO,
      (with_bus idle_sensor [Complete, Returns (- 121)])\<lparr>client := \<lparr>pending = [],
          wire = wire (client (with_bus idle_sensor [Complete, Returns (- 121)]))
            @ map (\<lambda>r. (reg_frame_08 (address r) (arducam_64mp_reg.val r), 3))
                (take 1 [Reg 0x0100 0x00, Reg 0x0136 0x18, Reg 0x0137 0x00])
            @ [(reg_frame_08 (address ([Reg 0x0100 0x00, Reg 0x0136 0x18, Reg 0x0137 0x00] ! 1))
                  (arducam_64mp_reg.val ([Reg 0x0100 0x00, Reg 0x0136 0x18, Reg 0x0137 0x00] ! 1)),
                - 121)]\<rparr>\<rparr>)"
    by (rule write_regs_aborts_at_first_failure) (simp_all add: idle_sensor_client)
  then show ?thesis
    by (simp add: with_bus_def idle_sensor_client reg_frame_08_def)
qed

lemma write_regs_all_complete:
  assumes "\<forall>x \<in> set (take (length regs) (pending (client s))). x = Complete"
  shows "arducam_64mp_write_regs s regs =
     (0, s\<lparr>client := \<lparr>pending = drop (length regs) (pending (client s)),
                       wire = wire (client s)
                         @ map (\<lambda>r. (reg_frame_08 (address r) (arducam_64mp_reg.val r), 3)) regs\<rparr>\<rparr>)"
  using assms
proof (induction regs arbitrary: s)
  case Nil
  then show ?case by simp
next
  case (Cons r rs)
  let ?c = "\<lparr>pending = tl (pending (client s)),
             wire = wire (client s) @ [(reg_frame_08 (address r) (arducam_64mp_reg.val r), 3)]\<rparr>"
  have w: "arducam_64mp_write_reg s (address r) 1 (ucast (arducam_64mp_reg.val r)) =
               (0, s\<lparr>client := ?c\<rparr>)"
  proof (cases "pending (client s)")
    case Nil
    then show ?thesis
      by (simp add: write_reg_entry i2c_send_Nil reg_frame_08_def)
  next
    case (Cons x xs)
    with Cons.prems have "x = Complete" by simp
    with Cons show ?thesis
      by (simp add: write_reg_entry i2c_send_Complete reg_frame_08_def)
  qed
  have "\<forall>x \<in> set (take (length rs) (pending (client (s\<lparr>client := ?c\<rparr>)))). x = Complete"
    using Cons.prems by (cases "pending (client s)") auto
  from Cons.IH [OF this] show ?case
    by (simp add: w drop_Suc)
qed

lemma write_regs_preserves:
  "arducam_64mp_write_regs s regs = (ret, s') \<Longrightarrow> s' = s\<lparr>client := client s'\<rparr>"
proof (induction regs arbitrary: s)
  case Nil
  then show ?case by simp
next
  case (Cons r rs)
  show ?case
  proof (cases "fst (i2c_master_send (client s) (reg_frame_08 (address r) (arducam_64mp_reg.val r))) \<noteq> 3")
    case True
    with Cons.prems show ?thesis
      by (auto simp add: write_reg_entry Let_def EIO_def)
  next
    case False
    with Cons.prems have
      "arducam_64mp_write_regs
         (s\<lparr>client := snd (i2c_master_send (client s) (reg_frame_08 (address r) (arducam_64mp_reg.val r)))\<rparr>)
         rs = (ret, s')"
      by (simp add: write_reg_entry Let_def)
    from Cons.IH [OF this] show ?thesis
      by (metis (no_types, lifting) arducam_64mp.surjective arducam_64mp.update_convs(7)
          arducam_64mp.select_convs)
  qed
qed

section \<open>Properties of the format code\<close>

text \<open>
  C5. For every flip pair \<open>(h, v)\<close> in \<open>{0,1}\<^sup>2\<close> held by the two flip controls,
  \<open>arducam_64mp_get_format_code\<close> returns the entry at index \<open>2 * v + h\<close> of the
  four-entry table \<open>codes\<close>, whose order is no flip, h flip, v flip, both. The lookup
  is a function of the two flip values alone: any two states with the same flip values give
  the same code, so repeated queries without a flip change agree.
\<close>

theorem get_format_code_index:
  assumes "val (hflip s) \<in> {0, 1}" and "val (vflip s) \<in> {0, 1}"
  shows "arducam_64mp_get_format_code s = codes ! nat (2 * val (vflip s) + val (hflip s))
       \<and> nat (2 * val (vflip s) + val (hflip s)) < length codes
       \<and> codes = [MEDIA_BUS_FMT_SRGGB10_1X10, MEDIA_BUS_FMT_SGRBG10_1X10,
                   MEDIA_BUS_FMT_SGBRG10_1X10, MEDIA_BUS_FMT_SBGGR10_1X10]
       \<and> (\<forall>s'. val (hflip s') = val (hflip s) \<and> val (vflip s') = val (vflip s)
               \<longrightarrow> arducam_64mp_get_format_code s' = arducam_64mp_get_format_code s)"
proof (intro conjI)
  have or: "(2::nat) OR 1 = 3" by simp
  show "arducam_64mp_get_format_code s = codes ! nat (2 * val (vflip s) + val (hflip s))"
    using assms by (auto simp add: arducam_64mp_get_format_code_def or)
  show "nat (2 * val (vflip s) + val (hflip s)) < length codes"
    using assms by (auto simp add: codes_def)
  show "codes = [MEDIA_BUS_FMT_SRGGB10_1X10, MEDIA_BUS_FMT_SGRBG10_1X10,
                 MEDIA_BUS_FMT_SGBRG10_1X10, MEDIA_BUS_FMT_SBGGR10_1X10]"
    by (simp add: codes_def)
  show "\<forall>s'. val (hflip s') = val (hflip s) \<and> val (vflip s') = val (vflip s)
               \<longrightarrow> arducam_64mp_get_format_code s' = arducam_64mp_get_format_code s"
    by (simp add: arducam_64mp_get_format_code_def)
qed

lemma with_ctrl_val_simps [simp]:
  "ctrl_handler (with_ctrl_val s cid v) = (ctrl_handler s)(cid := (ctrl_handler s cid)\<lparr>val := v\<rparr>)"
  "mode (with_ctrl_val s cid v) = mode s"
  "client (with_ctrl_val s cid v) = client s"
  "dev (with_ctrl_val s cid v) = dev s"
  "long_exp_shift (with_ctrl_val s cid v) = long_exp_shift s"
  "streaming (with_ctrl_val s cid v) = streaming s"
  "common_regs_written (with_ctrl_val s cid v) = common_regs_written s"
  by (simp_all add: with_ctrl_val_def)

lemma idle_sensor_ctrls: "ctrl_handler idle_sensor = init_controls"
  by (simp add: idle_sensor_def)

theorem get_format_code_index_witness:
  "val (hflip (with_ctrl_val idle_sensor V4L2_CID_VFLIP 1)) = 0
   \<and> val (vflip (with_ctrl_val idle_sensor V4L2_CID_VFLIP 1)) = 1
   \<and> arducam_64mp_get_format_code (with_ctrl_val idle_sensor V4L2_CID_VFLIP 1) = codes ! 2
   \<and> codes ! 2 = MEDIA_BUS_FMT_SGBRG10_1X10"
proof -
  let ?s = "with_ctrl_val idle_sensor V4L2_CID_VFLIP 1"
  have h: "val (hflip ?s) = 0" and v: "val (vflip ?s) = 1"
    by (simp_all add: idle_sensor_ctrls init_controls_def v4l2_ctrl_new_std_def)
  have "val (hflip ?s) \<in> {0, 1}" "val (vflip ?s) \<in> {0, 1}"
    by (simp_all add: idle_sensor_ctrls init_controls_def v4l2_ctrl_new_std_def)
  from get_format_code_index [OF this]
  have "arducam_64mp_get_format_code ?s = codes ! nat (2 * val (vflip ?s) + val (hflip ?s))"
    by blast
  moreover have "val (hflip idle_sensor) = 0"
    by (simp add: idle_sensor_ctrls init_controls_def v4l2_ctrl_new_std_def)
  ultimately have "arducam_64mp_get_format_code ?s = codes ! 2"
    by simp
  moreover have "codes ! 2 = MEDIA_BUS_FMT_SGBRG10_1X10" by (simp add: codes_def)
  ultimately show ?thesis using h v by simp
qed

section \<open>Properties of stream control: the no-op case\<close>

text \<open>
  C8. For every state, \<open>arducam_64mp_set_stream\<close> called with an \<open>enable\<close> argument
  equal to the current streaming flag (1 when streaming, 0 when not) returns 0 and leaves
  the whole state as it was: no transfer reaches the bus, and no field changes.
\<close>

theorem set_stream_same_state_is_noop:
  assumes "enable = (if streaming s then 1 else 0)"
  shows "arducam_64mp_set_stream s enable = (0, s)
       \<and> sent_since s (snd (arducam_64mp_set_stream s enable)) = []"
  using assms by (simp add: arducam_64mp_set_stream_def sent_since_def)

theorem set_stream_same_state_is_noop_witness:
  "streaming (idle_sensor\<lparr>streaming := True\<rparr>)
   \<and> arducam_64mp_set_stream (idle_sensor\<lparr>streaming := True\<rparr>) 1 = (0, idle_sensor\<lparr>streaming := True\<rparr>)
   \<and> \<not> streaming idle_sensor
   \<and> arducam_64mp_set_stream idle_sensor 0 = (0, idle_sensor)"
proof -
  have a: "streaming (idle_sensor\<lparr>streaming := True\<rparr>)" by simp
  have b: "\<not> streaming idle_sensor" by (simp add: idle_sensor_def)
  have "arducam_64mp_set_stream (idle_sensor\<lparr>streaming := True\<rparr>) 1 = (0, idle_sensor\<lparr>streaming := True\<rparr>)"
    using set_stream_same_state_is_noop [of 1 "idle_sensor\<lparr>streaming := True\<rparr>"] by simp
  moreover have "arducam_64mp_set_stream idle_sensor 0 = (0, idle_sensor)"
    using set_stream_same_state_is_noop [of 0 idle_sensor] b by simp
  ultimately show ?thesis using a b by simp
qed

end
